theory Spec2Isabelle
  imports Complex_Main
begin

section \<open>Strings of the host\<close>

text \<open>
  Source texts and emitted texts are strings of 8-bit characters. The string operations
  of the host that \<open>transpilePythonToJS\<close> uses are written out here.
\<close>

text \<open>
  White space as \<open>String.prototype.trim\<close> and the class \<open>\s\<close> know it (TAB, LF, VT, FF,
  CR, space, NBSP), line terminators as \<open>.\<close> knows them (LF, CR), and the word
  characters of \<open>\w\<close> and \<open>\b\<close>.
\<close>

definition isSpace :: "char \<Rightarrow> bool" where
  "isSpace c = (c = CHR 0x09 \<or> c = CHR 0x0A \<or> c = CHR 0x0B \<or> c = CHR 0x0C \<or> c = CHR 0x0D
                 \<or> c = CHR '' '' \<or> c = CHR 0xA0)"

definition isLineTerminator :: "char \<Rightarrow> bool" where
  "isLineTerminator c = (c = CHR 0x0A \<or> c = CHR 0x0D)"

definition isWordChar :: "char \<Rightarrow> bool" where
  "isWordChar c =
     (c \<in> set ''abcdefghijklmnopqrstuvwxyzABCDEFGHIJKLMNOPQRSTUVWXYZ0123456789_'')"

definition trim :: "string \<Rightarrow> string" where
  "trim s = rev (dropWhile isSpace (rev (dropWhile isSpace s)))"

definition startsWith :: "string \<Rightarrow> string \<Rightarrow> bool" where
  "startsWith s p = (take (length p) s = p)"

definition endsWith :: "string \<Rightarrow> string \<Rightarrow> bool" where
  "endsWith s p = (length p \<le> length s \<and> drop (length s - length p) s = p)"

text \<open>\<open>s.includes(p)\<close>\<close>

fun includesStr :: "string \<Rightarrow> string \<Rightarrow> bool" where
  "includesStr [] p = (p = [])"
| "includesStr (x # xs) p = (startsWith (x # xs) p \<or> includesStr xs p)"

text \<open>\<open>s.split(sep)\<close> for a separator of one character: never an empty array.\<close>

fun splitOn :: "char \<Rightarrow> string \<Rightarrow> string list" where
  "splitOn sep [] = [] # []"
| "splitOn sep (x # xs) =
     (if x = sep then [] # splitOn sep xs
      else (case splitOn sep xs of l # ls \<Rightarrow> (x # l) # ls | [] \<Rightarrow> [x] # []))"

definition repeat :: "string \<Rightarrow> nat \<Rightarrow> string" where
  "repeat s n = concat (replicate n s)"

text \<open>\<open>s.replace(pat, rep)\<close> for a string pattern: the first occurrence only.\<close>

fun replaceStr :: "string \<Rightarrow> string \<Rightarrow> string \<Rightarrow> string" where
  "replaceStr [] pat rep = (if pat = [] then rep else [])"
| "replaceStr (x # xs) pat rep =
     (if startsWith (x # xs) pat then rep @ drop (length pat) (x # xs)
      else x # replaceStr xs pat rep)"

definition DQ3 :: string where "DQ3 = [CHR 0x22, CHR 0x22, CHR 0x22]"
definition SQ3 :: string where "SQ3 = [CHR 0x27, CHR 0x27, CHR 0x27]"
definition NL :: string where "NL = [CHR 0x0A]"

text \<open>A text written as its lines: the lines joined by LF.\<close>

definition joinNL :: "string list \<Rightarrow> string" where
  "joinNL ls = (case ls of [] \<Rightarrow> [] | l # r \<Rightarrow> l @ concat (map (\<lambda>x. NL @ x) r))"

section \<open>Regular expressions of the host\<close>

text \<open>
  The regular expressions of \<open>transpilePythonToJS\<close> are sequences of: one character of a
  class, a class repeated (\<open>*\<close>, \<open>+\<close>, and the lazy \<open>*?\<close>, \<open>+?\<close>), a capturing group,
  and the assertions \<open>^\<close>, \<open>$\<close> (no \<open>m\<close> flag: start and end of the text) and \<open>\b\<close>.
  Every quantifier of the source stands on a single character class and no group is
  nested in another, so groups close in the order they are numbered.
\<close>

datatype cls = Lit char | AnyChar | SpaceC | WordC | NotLit char

fun inCls :: "cls \<Rightarrow> char \<Rightarrow> bool" where
  "inCls (Lit c) x = (x = c)"
| "inCls AnyChar x = (\<not> isLineTerminator x)"
| "inCls SpaceC x = isSpace x"
| "inCls WordC x = isWordChar x"
| "inCls (NotLit c) x = (x \<noteq> c)"

datatype item =
    One cls
  | Star cls
  | Plus cls
  | StarLazy cls
  | PlusLazy cls
  | Grp "item list"
  | Bol
  | Eol
  | Wb

text \<open>A literal text in a pattern.\<close>

definition str :: "string \<Rightarrow> item list" where
  "str s = map (\<lambda>c. One (Lit c)) s"

text \<open>
  A position of the matcher: the text to its left (nearest character first), the text
  still to read, and the groups captured so far.
\<close>

record mstate =
  seen :: string
  rest :: string
  caps :: "string list"

definition advance :: "nat \<Rightarrow> mstate \<Rightarrow> mstate" where
  "advance k st = st\<lparr>seen := rev (take k (rest st)) @ seen st, rest := drop k (rest st)\<rparr>"

text \<open>How many characters of the class stand at the position.\<close>

definition runLen :: "cls \<Rightarrow> mstate \<Rightarrow> nat" where
  "runLen c st = length (takeWhile (inCls c) (rest st))"

definition atWordBoundary :: "mstate \<Rightarrow> bool" where
  "atWordBoundary st =
     ((case seen st of [] \<Rightarrow> False | a # _ \<Rightarrow> isWordChar a) \<noteq>
      (case rest st of [] \<Rightarrow> False | b # _ \<Rightarrow> isWordChar b))"

text \<open>
  Backtracking as the list of all ways to match, in the order the backtracking matcher
  tries them: a greedy quantifier tries the longest repetition first, a lazy one the
  shortest. The head of the list is the match the host reports.
\<close>

fun matches :: "item list \<Rightarrow> mstate \<Rightarrow> mstate list" where
  "matches [] st = [st]"
| "matches (One c # r) st =
     (case rest st of
        [] \<Rightarrow> []
      | x # _ \<Rightarrow> if inCls c x then matches r (advance 1 st) else [])"
| "matches (Star c # r) st =
     concat (map (\<lambda>k. matches r (advance k st)) (rev [0 ..< Suc (runLen c st)]))"
| "matches (Plus c # r) st =
     concat (map (\<lambda>k. matches r (advance k st)) (rev [1 ..< Suc (runLen c st)]))"
| "matches (StarLazy c # r) st =
     concat (map (\<lambda>k. matches r (advance k st)) [0 ..< Suc (runLen c st)])"
| "matches (PlusLazy c # r) st =
     concat (map (\<lambda>k. matches r (advance k st)) [1 ..< Suc (runLen c st)])"
| "matches (Grp g # r) st =
     concat (map (\<lambda>st'. matches r
                   (st'\<lparr>caps := caps st' @ [take (length (rest st) - length (rest st')) (rest st)]\<rparr>))
                 (matches g st))"
| "matches (Bol # r) st = (if seen st = [] then matches r st else [])"
| "matches (Eol # r) st = (if rest st = [] then matches r st else [])"
| "matches (Wb # r) st = (if atWordBoundary st then matches r st else [])"

text \<open>
  The result of a match: where it starts (relative to where the search started), the
  matched text (\<open>m[0]\<close>) and the groups (\<open>m[1]\<close>, \<open>m[2]\<close>, ...).
\<close>

record rmatch =
  index :: nat
  whole :: string
  groups :: "string list"

text \<open>The leftmost match at or after the position.\<close>

fun searchFrom :: "item list \<Rightarrow> string \<Rightarrow> string \<Rightarrow> rmatch option" where
  "searchFrom re bef s =
     (case matches re \<lparr>seen = bef, rest = s, caps = []\<rparr> of
        st # _ \<Rightarrow> Some \<lparr>index = 0, whole = take (length s - length (rest st)) s, groups = caps st\<rparr>
      | [] \<Rightarrow>
         (case s of
            [] \<Rightarrow> None
          | x # xs \<Rightarrow> map_option (\<lambda>m. m\<lparr>index := Suc (index m)\<rparr>) (searchFrom re (x # bef) xs)))"

text \<open>\<open>s.match(re)\<close> for a regular expression without the \<open>g\<close> flag.\<close>

definition regexMatch :: "item list \<Rightarrow> string \<Rightarrow> rmatch option" where
  "regexMatch re s = searchFrom re [] s"

text \<open>
  Replacement texts: literal text and group references \<open>$n\<close>. Every reference of the
  source names a group of its pattern.
\<close>

datatype tpart = T string | Ref nat

definition expand :: "tpart list \<Rightarrow> rmatch \<Rightarrow> string" where
  "expand tmpl m =
     concat (map (\<lambda>p. case p of
                         T s \<Rightarrow> s
                       | Ref n \<Rightarrow> (if 0 < n \<and> n \<le> length (groups m) then groups m ! (n - 1) else []))
                 tmpl)"

text \<open>\<open>s.replace(re, tmpl)\<close> without the \<open>g\<close> flag: the first match only.\<close>

definition replaceFirst :: "item list \<Rightarrow> tpart list \<Rightarrow> string \<Rightarrow> string" where
  "replaceFirst re tmpl s =
     (case regexMatch re s of
        None \<Rightarrow> s
      | Some m \<Rightarrow> take (index m) s @ expand tmpl m @ drop (index m + length (whole m)) s)"

text \<open>
  \<open>s.replace(re, tmpl)\<close> with the \<open>g\<close> flag: every match, left to right, the search
  resuming where the last match ended (one character further after an empty match).
\<close>

function replaceAll :: "item list \<Rightarrow> tpart list \<Rightarrow> string \<Rightarrow> string \<Rightarrow> string" where
  "replaceAll re tmpl bef s =
     (case searchFrom re bef s of
        None \<Rightarrow> s
      | Some m \<Rightarrow>
          (let n = index m + length (whole m);
               out = take (index m) s @ expand tmpl m
           in if whole m = [] then
                (case drop n s of
                   [] \<Rightarrow> out
                 | x # xs \<Rightarrow> out @ x # replaceAll re tmpl (x # rev (take n s) @ bef) xs)
              else out @ replaceAll re tmpl (rev (take n s) @ bef) (drop n s)))"
  by pat_completeness auto
termination
proof (relation "measure (\<lambda>(re, tmpl, bef, s). length s)", goal_cases)
  case 1
  show ?case by simp
next
  case (2 re tmpl bef s m n out x xs)
  have "length (drop n s) \<le> length s" by simp
  with 2 show ?case by simp
next
  case (3 re tmpl bef s m n out)
  have bound: "searchFrom re b t = Some m' \<Longrightarrow> index m' + length (whole m') \<le> length t"
    for b t m'
  proof (induction t arbitrary: b m')
    case Nil
    then show ?case by (auto split: list.splits)
  next
    case (Cons x xs)
    show ?case
    proof (cases "matches re \<lparr>seen = b, rest = x # xs, caps = []\<rparr>")
      case Nil
      with Cons.prems obtain m2 where m2: "searchFrom re (x # b) xs = Some m2"
        and m': "m' = m2\<lparr>index := Suc (index m2)\<rparr>"
        by auto
      from Cons.IH [OF m2] m' show ?thesis by simp
    next
      case (Cons st sts)
      with Cons.prems show ?thesis by auto
    qed
  qed
  from bound [OF 3(1)] 3 show ?case by (cases s) auto
qed

declare replaceAll.simps [simp del]

section \<open>The transpiler\<close>

text \<open>
  \<open>transpilePythonToJS\<close> (lines 742-956), statement by statement.
  Line 748: \<open>/def\s+(\w+)\s*\((.*?)\):/\<close>.
\<close>

definition functionMatchRe :: "item list" where
  "functionMatchRe =
     str ''def'' @ [Plus SpaceC, Grp [Plus WordC], Star SpaceC, One (Lit CHR ''(''),
                    Grp [StarLazy AnyChar], One (Lit CHR '')''), One (Lit CHR '':'')]"

text \<open>
  The header as the specification words it, \<open>def <name>(<params>):\<close>: the keyword,
  white space, a name of word characters, optional white space, and the parameters
  between parentheses on one line, followed by a colon; \<open>hasHeader\<close> when such a
  header stands anywhere in the text.
\<close>

definition headerAt :: "string \<Rightarrow> bool" where
  "headerAt t \<longleftrightarrow>
     (\<exists>ws name ws' params post.
        t = ''def'' @ ws @ name @ ws' @ ''('' @ params @ ''):'' @ post \<and>
        ws \<noteq> [] \<and> list_all isSpace ws \<and>
        name \<noteq> [] \<and> list_all isWordChar name \<and>
        list_all isSpace ws' \<and>
        list_all (\<lambda>ch. \<not> isLineTerminator ch) params)"

definition hasHeader :: "string \<Rightarrow> bool" where
  "hasHeader s \<longleftrightarrow> (\<exists>pre t. s = pre @ t \<and> headerAt t)"

text \<open>\<open>line.match(/^(\s*)/)[1].length\<close> (lines 784-785 and 831).\<close>

definition leadingWs :: "string \<Rightarrow> nat" where
  "leadingWs line = length (takeWhile isSpace line)"

text \<open>
  Lines 762-780: the filter that keeps the lines counted for the minimum indentation; its
  flag \<open>skipDocstringForIndent\<close> lives across the calls of the callback.
\<close>

fun nonEmptyLines :: "bool \<Rightarrow> string list \<Rightarrow> string list" where
  "nonEmptyLines skipDocstringForIndent [] = []"
| "nonEmptyLines skipDocstringForIndent (line # ls) =
     (let trimmed = trim line in
      if trimmed = [] \<or> startsWith trimmed ''#'' then nonEmptyLines skipDocstringForIndent ls
      else if startsWith trimmed DQ3 \<or> startsWith trimmed SQ3 then
        (let delimiter = take 3 trimmed in
         if endsWith trimmed delimiter \<and> length trimmed > 6
         then nonEmptyLines skipDocstringForIndent ls
         else nonEmptyLines (\<not> skipDocstringForIndent) ls)
      else if skipDocstringForIndent then nonEmptyLines skipDocstringForIndent ls
      else line # nonEmptyLines skipDocstringForIndent ls)"

text \<open>Lines 782-787.\<close>

definition minIndentOf :: "string list \<Rightarrow> nat" where
  "minIndentOf ls =
     (case map leadingWs (nonEmptyLines False ls) of
        [] \<Rightarrow> 0
      | n # ns \<Rightarrow> fold min ns n)"

text \<open>
  The variables of the loop over the lines (lines 758, 790-793). The top of
  \<open>indentStack\<close> is its last element, as in the source; \<open>lastIndentLevel\<close> is written
  and never read, and is left out.
\<close>

record lstate =
  body :: string
  indentStack :: "int list"
  inDocstring :: bool
  docstringDelimiter :: string

text \<open>Lines 836-839.\<close>

function closeBlocks :: "int \<Rightarrow> int list \<times> string \<Rightarrow> int list \<times> string" where
  "closeBlocks relativeIndent (stk, b) =
     (if length stk > 1 \<and> relativeIndent < last stk
      then closeBlocks relativeIndent
             (butlast stk, b @ repeat ''    '' (length (butlast stk)) @ ''}'' @ NL)
      else (stk, b))"
  by pat_completeness auto
termination
  by (relation "measure (\<lambda>(r, stk, b). length stk)") auto

declare closeBlocks.simps [simp del]

text \<open>Lines 926-929.\<close>

function closeRemaining :: "int list \<times> string \<Rightarrow> int list \<times> string" where
  "closeRemaining (stk, b) =
     (if length stk > 1
      then closeRemaining (butlast stk, b @ repeat ''    '' (length (butlast stk)) @ ''}'' @ NL)
      else (stk, b))"
  by pat_completeness auto
termination
  by (relation "measure (\<lambda>(stk, b). length stk)") auto

declare closeRemaining.simps [simp del]

text \<open>\<open>/\bw\b/g\<close>\<close>

definition wordRe :: "string \<Rightarrow> item list" where
  "wordRe w = [Wb] @ str w @ [Wb]"

text \<open>Lines 842-850.\<close>

definition keywordRules :: "string \<Rightarrow> string" where
  "keywordRules dedented =
     (let s1 = replaceAll (wordRe ''True'') [T ''true''] [] dedented;
          s2 = replaceAll (wordRe ''False'') [T ''false''] [] s1;
          s3 = replaceAll (wordRe ''None'') [T ''null''] [] s2;
          s4 = replaceAll (wordRe ''and'') [T ''&&''] [] s3;
          s5 = replaceAll (wordRe ''or'') [T ''||''] [] s4;
          s6 = replaceAll (wordRe ''not'') [T ''!''] [] s5;
          s7 = replaceAll (wordRe ''def'') [T ''function''] [] s6;
          s8 = replaceAll ([Wb] @ str ''self.'') [T ''this.''] [] s7
      in s8)"

text \<open>Line 853.\<close>

definition setLiteral :: "string \<Rightarrow> string" where
  "setLiteral jsLine = replaceAll ([Wb] @ str ''set()'') [T ''new Set()''] [] jsLine"

text \<open>
  Lines 857-862: \<open>/(\w+)\s+in\s+(\w+)/\<close>. The replacement text consists of word
  characters and \<open>.has()\<close>, so it holds no \<open>$\<close> pattern.
\<close>

definition inCheckRe :: "item list" where
  "inCheckRe = [Grp [Plus WordC], Plus SpaceC] @ str ''in'' @ [Plus SpaceC, Grp [Plus WordC]]"

definition membership :: "string \<Rightarrow> string" where
  "membership jsLine =
     (case regexMatch inCheckRe jsLine of
        None \<Rightarrow> jsLine
      | Some inCheckMatch \<Rightarrow>
          if \<not> includesStr jsLine ''for''
          then (let fullMatch = whole inCheckMatch;
                    item = groups inCheckMatch ! 0;
                    collection = groups inCheckMatch ! 1
                in replaceStr jsLine fullMatch (collection @ ''.has('' @ item @ '')''))
          else jsLine)"

text \<open>
  Lines 865-890. \<open>/for\s+(\w+)\s+in\s+(.+?):\s*$/\<close>; for \<open>kw\<close> one of \<open>if\<close>,
  \<open>elif\<close>, \<open>while\<close> the test \<open>/^kw\s+.+:\s*$/\<close> on the trimmed line and the
  replaced pattern \<open>/kw\s+(.+?):\s*$/\<close>; \<open>/^else:\s*$/\<close> and \<open>/else:\s*$/\<close>.
\<close>

definition forLoopRe :: "item list" where
  "forLoopRe =
     str ''for'' @ [Plus SpaceC, Grp [Plus WordC], Plus SpaceC] @ str ''in'' @
     [Plus SpaceC, Grp [PlusLazy AnyChar], One (Lit CHR '':''), Star SpaceC, Eol]"

definition headTestRe :: "string \<Rightarrow> item list" where
  "headTestRe kw =
     [Bol] @ str kw @ [Plus SpaceC, Plus AnyChar, One (Lit CHR '':''), Star SpaceC, Eol]"

definition headRe :: "string \<Rightarrow> item list" where
  "headRe kw =
     str kw @ [Plus SpaceC, Grp [PlusLazy AnyChar], One (Lit CHR '':''), Star SpaceC, Eol]"

definition elseTestRe :: "item list" where
  "elseTestRe = [Bol] @ str ''else:'' @ [Star SpaceC, Eol]"

definition elseRe :: "item list" where
  "elseRe = str ''else:'' @ [Star SpaceC, Eol]"

definition blockHeader :: "int \<Rightarrow> string \<Rightarrow> int list \<Rightarrow> string \<times> int list" where
  "blockHeader relativeIndent jsLine stk =
     (case regexMatch forLoopRe jsLine of
        Some forLoopMatch \<Rightarrow>
          (let loopVar = groups forLoopMatch ! 0;
               collection = groups forLoopMatch ! 1
           in (''for (const '' @ loopVar @ '' of '' @ collection @ '') {'',
               stk @ [relativeIndent + 4]))
      | None \<Rightarrow>
          if regexMatch (headTestRe ''if'') (trim jsLine) \<noteq> None then
            (replaceFirst (headRe ''if'') [T ''if ('', Ref 1, T '') {''] jsLine,
             stk @ [relativeIndent + 4])
          else if regexMatch (headTestRe ''elif'') (trim jsLine) \<noteq> None then
            (replaceFirst (headRe ''elif'') [T ''} else if ('', Ref 1, T '') {''] jsLine, stk)
          else if regexMatch elseTestRe (trim jsLine) \<noteq> None then
            (replaceFirst elseRe [T ''} else {''] jsLine, stk)
          else if regexMatch (headTestRe ''while'') (trim jsLine) \<noteq> None then
            (replaceFirst (headRe ''while'') [T ''while ('', Ref 1, T '') {''] jsLine,
             stk @ [relativeIndent + 4])
          else (jsLine, stk))"

text \<open>Lines 893-902: \<open>/^(.+?)\s+if\s+(.+?)\s+else\s+(.+)$/\<close>.\<close>

definition ternaryRe :: "item list" where
  "ternaryRe =
     [Bol, Grp [PlusLazy AnyChar], Plus SpaceC] @ str ''if'' @
     [Plus SpaceC, Grp [PlusLazy AnyChar], Plus SpaceC] @ str ''else'' @
     [Plus SpaceC, Grp [Plus AnyChar], Eol]"

definition ternary :: "string \<Rightarrow> string" where
  "ternary jsLine =
     (let hasReturn = startsWith (trim jsLine) ''return'';
          lineWithoutReturn = (if hasReturn then trim (drop 6 (trim jsLine)) else trim jsLine)
      in case regexMatch ternaryRe lineWithoutReturn of
           None \<Rightarrow> jsLine
         | Some ternaryMatch \<Rightarrow>
             (let valueIfTrue = groups ternaryMatch ! 0;
                  condition = groups ternaryMatch ! 1;
                  valueIfFalse = groups ternaryMatch ! 2;
                  ternaryExpr = ''('' @ condition @ '') ? ('' @ valueIfTrue @ '') : ('' @
                                valueIfFalse @ '')''
              in if hasReturn then ''return '' @ ternaryExpr else ternaryExpr))"

text \<open>Lines 905-919; \<open>/len\(([^)]+)\)/g\<close>.\<close>

definition builtins :: "string \<Rightarrow> string" where
  "builtins jsLine =
     (let s1 = replaceAll ([Wb] @ str ''max('') [T ''Math.max(''] [] jsLine;
          s2 = replaceAll ([Wb] @ str ''min('') [T ''Math.min(''] [] s1;
          s3 = replaceAll ([Wb] @ str ''abs('') [T ''Math.abs(''] [] s2;
          s4 = replaceAll ([Wb] @ str ''round('') [T ''Math.round(''] [] s3;
          s5 = (if includesStr s4 ''len(''
                then replaceAll (str ''len('' @ [Grp [Plus (NotLit CHR '')'')]] @ str '')'')
                       [Ref 1, T ''.length''] [] s4
                else s4);
          s6 = replaceAll (str ''.append('') [T ''.push(''] [] s5;
          s7 = replaceAll (str ''.remove('') [T ''.delete(''] [] s6
      in s7)"

text \<open>The body of the loop over the lines (lines 796-922); each \<open>continue\<close> returns.\<close>

definition processLine :: "nat \<Rightarrow> string \<Rightarrow> lstate \<Rightarrow> lstate" where
  "processLine minIndent line st =
     (let trimmed = trim line in
      if trimmed = [] \<or> startsWith trimmed ''#'' then st
      else if inDocstring st then
        (if trimmed = docstringDelimiter st \<or> endsWith trimmed (docstringDelimiter st)
         then st\<lparr>inDocstring := False, docstringDelimiter := []\<rparr>
         else st)
      else if startsWith trimmed DQ3 \<or> startsWith trimmed SQ3 then
        (let delimiter = take 3 trimmed in
         if length trimmed > 3 \<and> endsWith trimmed delimiter \<and> length trimmed > 6
         then st
         else st\<lparr>inDocstring := True, docstringDelimiter := delimiter\<rparr>)
      else if trimmed = ''pass'' then st
      else
        (let currentIndent = leadingWs line;
             dedented = drop minIndent line;
             relativeIndent = int currentIndent - int minIndent;
             (stk1, body1) = closeBlocks relativeIndent (indentStack st, body st);
             jsLine1 = membership (setLiteral (keywordRules dedented));
             (jsLine2, stk2) = blockHeader relativeIndent jsLine1 stk1;
             jsLine3 = builtins (ternary jsLine2)
         in st\<lparr>body := body1 @ jsLine3 @ NL, indentStack := stk2\<rparr>))"

text \<open>Lines 757-934: from the lines after the first to the translated body.\<close>

definition translateBody :: "string list \<Rightarrow> string" where
  "translateBody ls =
     (let minIndent = minIndentOf ls;
          st = fold (processLine minIndent) ls
                 \<lparr>body = [], indentStack = [0], inDocstring = False, docstringDelimiter = []\<rparr>;
          (stk, b) = closeRemaining (indentStack st, body st)
      in if trim b = [] then ''return undefined;'' else b)"

text \<open>Lines 937-941: the template of \<open>jsCode\<close>, with its line breaks and indentation.\<close>

definition jsCodeOf :: "string \<Rightarrow> string \<Rightarrow> string \<Rightarrow> string" where
  "jsCodeOf functionName params b =
     NL @ repeat '' '' 16 @ ''return function '' @ functionName @ ''('' @ params @ '') {'' @ NL @
     repeat '' '' 20 @ b @ NL @
     repeat '' '' 16 @ ''};'' @ NL @
     repeat '' '' 12"

text \<open>
  Lines 747-941: the text handed to \<open>new Function\<close>, or \<open>None\<close> where line 750 throws
  \<open>Could not find Python function definition\<close>.
\<close>

definition generatedJS :: "string \<Rightarrow> string option" where
  "generatedJS pythonCode =
     (case regexMatch functionMatchRe pythonCode of
        None \<Rightarrow> None
      | Some functionMatch \<Rightarrow>
          (let functionName = groups functionMatch ! 0;
               params = groups functionMatch ! 1;
               ls = tl (splitOn (CHR 0x0A) pythonCode)
           in Some (jsCodeOf functionName params (translateBody ls))))"

text \<open>
  The nesting of braces in an emitted text: the depth after each brace, which must never
  fall below zero and must end at zero.
\<close>

fun braceDepth :: "int \<Rightarrow> string \<Rightarrow> int option" where
  "braceDepth d [] = Some d"
| "braceDepth d (c # cs) =
     (if c = CHR ''{'' then braceDepth (d + 1) cs
      else if c = CHR ''}'' then (if d \<le> 0 then None else braceDepth (d - 1) cs)
      else braceDepth d cs)"

definition bracesBalanced :: "string \<Rightarrow> bool" where
  "bracesBalanced s = (braceDepth 0 s = Some 0)"



section \<open>Values of the host runtime\<close>

text \<open>
  The values that travel through the test harness of \<open>LeetCodeChallenge\<close>: the inputs
  and expected outputs of the problem's test cases and whatever the user's function
  returns. The harness inspects only the array structure (\<open>Array.isArray\<close>,
  \<open>.length\<close>, the spread \<open>...args\<close>).
\<close>

datatype jsval =
    JUndefined
  | JNull
  | JBool bool
  | JNum real
  | JStr string
  | JArr "jsval list"
  | JObj "(string \<times> jsval) list"

text \<open>What a \<open>throw\<close> carries: an \<open>Error\<close> object with its message, or any other value.\<close>

datatype thrown = ErrorObject string | NonError jsval

text \<open>
  How a piece of code that runs in the host ends: it returns a value, or an exception
  leaves it, or it never ends (a loop in the user's function blocks the thread: there is
  no timeout). The first two come with the state of the host they leave.
\<close>

datatype ('a, 'h) run = Returns 'a 'h | Throws thrown 'h | Hangs

text \<open>
  A callable of the host. Calling it may read and change the host's state \<open>'h\<close> (globals,
  the clock). \<open>arity\<close> is the callable's own declared parameter count
  (\<open>Function.length\<close>); no code of the scene reads it.
\<close>

record 'h jsfun =
  arity :: nat
  call :: "jsval list \<Rightarrow> 'h \<Rightarrow> (jsval, 'h) run"

text \<open>
  The host functions the scene calls and does not define. \<open>JSON.stringify\<close> gives a
  string or \<open>undefined\<close>, or throws (\<open>Inl\<close> of what it throws) on a value it cannot
  serialise. \<open>String(v)\<close> gives a string, or throws on a value it cannot convert (an
  object without a usable \<open>toString\<close>, such as \<open>Object.create(null)\<close>).
  \<open>performance.now()\<close> reads the clock. The dynamic code construction
  \<open>new Function(jsCode)()\<close> throws an error (\<open>Inl\<close> of its message) when the text is
  not a valid function body.
\<close>

record 'h host =
  JSON_stringify :: "jsval \<Rightarrow> thrown + string option"
  String_of :: "jsval \<Rightarrow> thrown + string"
  performance_now :: "'h \<Rightarrow> real"
  new_Function :: "string \<Rightarrow> string + 'h jsfun"

text \<open>
  Lines 742-956 with both \<open>try\<close>/\<open>catch\<close> layers: the \<open>catch\<close> of line 953 prefixes
  the message of whatever was thrown inside, and \<open>evaluateUserCode\<close> (lines 733-740)
  prefixes it once more. Everything thrown inside is an \<open>Error\<close> object.
\<close>

definition transpilePythonToJS :: "'h host \<Rightarrow> string \<Rightarrow> string + 'h jsfun" where
  "transpilePythonToJS hst pythonCode =
     (case (case generatedJS pythonCode of
              None \<Rightarrow> Inl ''Could not find Python function definition''
            | Some jsCode \<Rightarrow> new_Function hst jsCode) of
        Inl message \<Rightarrow> Inl (''Python transpilation error: '' @ message)
      | Inr fn \<Rightarrow> Inr fn)"

definition evaluateUserCode :: "'h host \<Rightarrow> string \<Rightarrow> string + 'h jsfun" where
  "evaluateUserCode hst code =
     (case transpilePythonToJS hst code of
        Inl message \<Rightarrow> Inl (''Compilation error: '' @ message)
      | Inr fn \<Rightarrow> Inr fn)"

section \<open>The test harness\<close>

record testCase =
  input :: jsval
  expected :: jsval

record testResult =
  passed :: bool
  rinput :: jsval
  rexpected :: jsval
  actual :: jsval
  error :: "string option"
  executionTime :: real

text \<open>
  Lines 533-544 (and 597-608): the arguments of the call. \<open>k\<close> is
  \<open>this.problem.parameters.length\<close>.
\<close>

definition callArgs :: "nat \<Rightarrow> jsval \<Rightarrow> jsval list" where
  "callArgs k inp =
     (case inp of
        JArr xs \<Rightarrow> (if length xs = k then xs else [inp])
      | _ \<Rightarrow> [inp])"

text \<open>
  \<open>error instanceof Error ? error.message : String(error)\<close> (lines 565 and 629): the
  message, or what \<open>String\<close> throws.
\<close>

definition errorMessage :: "'h host \<Rightarrow> thrown \<Rightarrow> thrown + string" where
  "errorMessage hst e = (case e of ErrorObject m \<Rightarrow> Inr m | NonError v \<Rightarrow> String_of hst v)"

text \<open>
  The \<open>catch\<close> block of the callback (lines 559-568 and 623-632). It stands inside no
  other \<open>try\<close> of the callback: what \<open>String(error)\<close> throws leaves the callback.
\<close>

definition catchBlock :: "'h host \<Rightarrow> testCase \<Rightarrow> thrown \<Rightarrow> 'h \<Rightarrow> (testResult, 'h) run" where
  "catchBlock hst tc e h =
     (case errorMessage hst e of
        Inl e' \<Rightarrow> Throws e' h
      | Inr m \<Rightarrow>
          Returns \<lparr>passed = False, rinput = input tc, rexpected = expected tc, actual = JNull,
                   error = Some m, executionTime = 0\<rparr> h)"

text \<open>
  The callback of \<open>testCases.map\<close> in \<open>runTests\<close> (lines 529-569); the callback in
  \<open>submitSolution\<close> (lines 593-633) is the same text. Whatever is thrown inside the
  \<open>try\<close> block, by the call or by one of the two calls of \<open>JSON.stringify\<close>, ends in
  the \<open>catch\<close> block. A call that never returns leaves the callback hanging.
\<close>

definition runCase ::
  "'h host \<Rightarrow> nat \<Rightarrow> 'h jsfun \<Rightarrow> testCase \<Rightarrow> 'h \<Rightarrow> (testResult, 'h) run" where
  "runCase hst k userFunction tc h =
     (let startTime = performance_now hst h;
          args = callArgs k (input tc)
      in case call userFunction args h of
           Returns act h' \<Rightarrow>
             (let executionTime = performance_now hst h' - startTime
              in case JSON_stringify hst act of
                   Inl e \<Rightarrow> catchBlock hst tc e h'
                 | Inr sa \<Rightarrow>
                     (case JSON_stringify hst (expected tc) of
                        Inl e \<Rightarrow> catchBlock hst tc e h'
                      | Inr se \<Rightarrow>
                          Returns \<lparr>passed = (sa = se), rinput = input tc,
                                   rexpected = expected tc, actual = act, error = None,
                                   executionTime = executionTime\<rparr> h'))
         | Throws e h' \<Rightarrow> catchBlock hst tc e h'
         | Hangs \<Rightarrow> Hangs)"

text \<open>
  \<open>Array.prototype.map\<close> with that callback: the cases in order, the host state
  threaded. An exception that leaves the callback leaves the map, and no array of
  results comes to be.
\<close>

fun mapCases ::
  "'h host \<Rightarrow> nat \<Rightarrow> 'h jsfun \<Rightarrow> testCase list \<Rightarrow> 'h \<Rightarrow> (testResult list, 'h) run" where
  "mapCases hst k userFunction [] h = Returns [] h"
| "mapCases hst k userFunction (tc # tcs) h =
     (case runCase hst k userFunction tc h of
        Returns r h' \<Rightarrow>
          (case mapCases hst k userFunction tcs h' of
             Returns rs h'' \<Rightarrow> Returns (r # rs) h''
           | Throws e h'' \<Rightarrow> Throws e h''
           | Hangs \<Rightarrow> Hangs)
      | Throws e h' \<Rightarrow> Throws e h'
      | Hangs \<Rightarrow> Hangs)"

section \<open>The scene\<close>

text \<open>The fields of \<open>LeetCodeProblem\<close> that the scene's handlers read.\<close>

record problem =
  parameters :: "string list"
  testCases :: "testCase list"
  hiddenTestCases :: "testCase list option"

text \<open>What the scene last put on the screen.\<close>

datatype overlay =
    NoOverlay
  | ErrorOverlay string
  | ResultsOverlay "testResult list" bool "int option"
  | SuccessOverlay

text \<open>
  The scene: its fields \<open>problem\<close> and \<open>failedAttempts\<close> (lines 6-11), the state of
  the host that the user's function runs in, and a record of what the scene asked of the
  scene manager: \<open>running\<close> from \<open>create\<close> until \<open>this.scene.stop()\<close>,
  \<open>closeScheduled\<close> once the delayed \<open>closeChallenge\<close> of line 640 is set up, and
  \<open>gameOver\<close> once \<open>this.scene.start('GameOver')\<close> was called.
\<close>

record 'h scene =
  problem :: problem
  failedAttempts :: int
  hostState :: 'h
  overlay :: overlay
  running :: bool
  closeScheduled :: bool
  gameOver :: bool

definition MAX_ATTEMPTS :: int where
  "MAX_ATTEMPTS = 3"

text \<open>Lines 17-35, when the scene manager launches the scene.\<close>

definition create :: "problem \<Rightarrow> 'h scene \<Rightarrow> 'h scene" where
  "create p s =
     s\<lparr>problem := p, failedAttempts := 0, overlay := NoOverlay, running := True,
       closeScheduled := False, gameOver := False\<rparr>"

definition showTestResults ::
  "testResult list \<Rightarrow> bool \<Rightarrow> int option \<Rightarrow> 'h scene \<Rightarrow> 'h scene" where
  "showTestResults results isSubmission attemptsRemaining s =
     s\<lparr>overlay := ResultsOverlay results isSubmission attemptsRemaining\<rparr>"

definition showError :: "string \<Rightarrow> 'h scene \<Rightarrow> 'h scene" where
  "showError message s = s\<lparr>overlay := ErrorOverlay message\<rparr>"

text \<open>Lines 663-714.\<close>

definition showSuccess :: "'h scene \<Rightarrow> 'h scene" where
  "showSuccess s = s\<lparr>overlay := SuccessOverlay\<rparr>"

text \<open>Lines 1223-1246.\<close>

definition triggerGameOver :: "'h scene \<Rightarrow> 'h scene" where
  "triggerGameOver s = s\<lparr>running := False, gameOver := True\<rparr>"


text \<open>
  The outer \<open>catch\<close> of \<open>runTests\<close> and \<open>submitSolution\<close> (lines 573-575 and
  658-660): \<open>error instanceof Error ? error.message : 'Failed to compile code'\<close>.
\<close>

definition outerMessage :: "thrown \<Rightarrow> string" where
  "outerMessage e = (case e of ErrorObject m \<Rightarrow> m | NonError v \<Rightarrow> ''Failed to compile code'')"

text \<open>
  Lines 519-576. The handler gives the scene it leaves, or \<open>None\<close> when it never returns.
\<close>

definition runTests :: "'h host \<Rightarrow> string \<Rightarrow> 'h scene \<Rightarrow> 'h scene option" where
  "runTests hst code s =
     (case evaluateUserCode hst code of
        Inl message \<Rightarrow> Some (showError message s)
      | Inr userFunction \<Rightarrow>
          (case mapCases hst (length (parameters (problem s))) userFunction
                  (testCases (problem s)) (hostState s) of
             Returns results h' \<Rightarrow>
               Some (showTestResults results False None (s\<lparr>hostState := h'\<rparr>))
           | Throws e h' \<Rightarrow> Some (showError (outerMessage e) (s\<lparr>hostState := h'\<rparr>))
           | Hangs \<Rightarrow> None))"

text \<open>Lines 578-661.\<close>

definition submitSolution :: "'h host \<Rightarrow> string \<Rightarrow> 'h scene \<Rightarrow> 'h scene option" where
  "submitSolution hst code s =
     (case evaluateUserCode hst code of
        Inl message \<Rightarrow> Some (showError message s)
      | Inr userFunction \<Rightarrow>
          (let allTests = testCases (problem s) @
                          (case hiddenTestCases (problem s) of None \<Rightarrow> [] | Some hs \<Rightarrow> hs)
           in case mapCases hst (length (parameters (problem s))) userFunction allTests
                     (hostState s) of
                Returns results h' \<Rightarrow>
                  (let s1 = s\<lparr>hostState := h'\<rparr>;
                       allPassed = list_all passed results
                   in if allPassed then Some ((showSuccess s1)\<lparr>closeScheduled := True\<rparr>)
                      else
                        (let s2 = s1\<lparr>failedAttempts := failedAttempts s1 + 1\<rparr>;
                             attemptsRemaining = MAX_ATTEMPTS - failedAttempts s2
                         in if failedAttempts s2 \<ge> MAX_ATTEMPTS then Some (triggerGameOver s2)
                            else Some (showTestResults results True (Some attemptsRemaining) s2)))
              | Throws e h' \<Rightarrow> Some (showError (outerMessage e) (s\<lparr>hostState := h'\<rparr>))
              | Hangs \<Rightarrow> None))"







section \<open>Function bodies of the host\<close>

text \<open>
  What \<open>new Function(jsCode)()\<close> makes of the text that the transpiler emits, for the
  part of the host's language that the texts of the two scenarios below are written in.
  This is the grammar and the evaluation of ECMA-262, not code of the repository:
  \<open>jsParse\<close> gives the syntax tree of a text
  \<open>return function NAME(PARAMS) { STATEMENTS };\<close> whose statements are \<open>return\<close>,
  \<open>if\<close> with blocks and \<open>for (const ID of E)\<close> with a block, and whose expressions
  are built from identifiers, decimal integers, parentheses, unary minus, \<open>>\<close> and
  the conditional operator; \<open>jsRun\<close> calls the function of such a tree. Both give
  \<open>None\<close> for whatever lies outside that part: \<open>None\<close> says nothing about the host.
\<close>

datatype tok = TId string | TNum nat | TPunct char

definition isDigit :: "char \<Rightarrow> bool" where
  "isDigit c = (c \<in> set ''0123456789'')"

definition isIdStart :: "char \<Rightarrow> bool" where
  "isIdStart c = (c \<in> set ''abcdefghijklmnopqrstuvwxyzABCDEFGHIJKLMNOPQRSTUVWXYZ_$'')"

definition isIdPart :: "char \<Rightarrow> bool" where
  "isIdPart c = (isIdStart c \<or> isDigit c)"

definition digitVal :: "char \<Rightarrow> nat" where
  "digitVal c = length (takeWhile (\<lambda>d. d \<noteq> c) ''0123456789'')"

definition natOfDigits :: "string \<Rightarrow> nat" where
  "natOfDigits ds = fold (\<lambda>c n. 10 * n + digitVal c) ds 0"

text \<open>
  The tokens of a text, each with the mark whether a line terminator stands between it
  and the token before. A character that starts no token of the fragment, a number with
  a leading zero, followed by a letter or a point, or of more than 15 digits, and \<open>>\<close>, \<open>-\<close> or \<open>?\<close> followed by a character
  that could make a longer punctuator of it, give \<open>None\<close>.
\<close>

function jsLex :: "bool \<Rightarrow> string \<Rightarrow> (bool \<times> tok) list option" where
  "jsLex nl [] = Some []"
| "jsLex nl (c # cs) =
     (if isLineTerminator c then jsLex True cs
      else if isSpace c then jsLex nl cs
      else if isIdStart c then
        (case jsLex False (dropWhile isIdPart cs) of
           None \<Rightarrow> None
         | Some ts \<Rightarrow> Some ((nl, TId (c # takeWhile isIdPart cs)) # ts))
      else if isDigit c then
        (if (c = CHR ''0'' \<and> takeWhile isDigit cs \<noteq> []) \<or>
            (case dropWhile isDigit cs of [] \<Rightarrow> False | d # _ \<Rightarrow> isIdPart d \<or> d = CHR ''.'') \<or>
            length (takeWhile isDigit cs) \<ge> 15
         then None
         else (case jsLex False (dropWhile isDigit cs) of
                 None \<Rightarrow> None
               | Some ts \<Rightarrow> Some ((nl, TNum (natOfDigits (c # takeWhile isDigit cs))) # ts)))
      else if c \<in> set ''(){};,:'' then
        (case jsLex False cs of None \<Rightarrow> None | Some ts \<Rightarrow> Some ((nl, TPunct c) # ts))
      else if c \<in> set ''>-?'' then
        (if (case cs of [] \<Rightarrow> False | d # _ \<Rightarrow> d \<in> set ''>-?=.'') then None
         else (case jsLex False cs of None \<Rightarrow> None | Some ts \<Rightarrow> Some ((nl, TPunct c) # ts)))
      else None)"
  by pat_completeness auto

termination jsLex
  by (relation "measure (\<lambda>(nl, s). length s)")
     (auto simp: less_Suc_eq_le length_dropWhile_le)

text \<open>The words that cannot be used as the name of a variable, a parameter or a function.\<close>

definition reservedWords :: "string list" where
  "reservedWords =
     [''arguments'', ''async'', ''await'', ''break'', ''case'', ''catch'', ''class'', ''const'',
      ''continue'', ''debugger'', ''default'', ''delete'', ''do'', ''else'', ''enum'', ''eval'',
      ''export'', ''extends'', ''false'', ''finally'', ''for'', ''function'', ''if'',
      ''implements'', ''import'', ''in'', ''instanceof'', ''interface'', ''let'', ''new'',
      ''null'', ''of'', ''package'', ''private'', ''protected'', ''public'', ''return'',
      ''static'', ''super'', ''switch'', ''this'', ''throw'', ''true'', ''try'', ''typeof'',
      ''var'', ''void'', ''while'', ''with'', ''yield'']"

datatype expr =
    EVar string
  | ENum nat
  | ENeg expr
  | EGt expr expr
  | ECond expr expr expr

datatype stmt =
    SReturn "expr option"
  | SIf expr "stmt list" "stmt list option"
  | SForOf string expr "stmt list"

record program =
  fname :: string
  fparams :: "string list"
  fbody :: "stmt list"

definition isP :: "char \<Rightarrow> (bool \<times> tok) list \<Rightarrow> bool" where
  "isP c ts = (case ts of (nl, TPunct d) # r \<Rightarrow> d = c | _ \<Rightarrow> False)"

definition isK :: "string \<Rightarrow> (bool \<times> tok) list \<Rightarrow> bool" where
  "isK w ts = (case ts of (nl, TId x) # r \<Rightarrow> x = w | _ \<Rightarrow> False)"

text \<open>
  Expressions, by recursive descent: a conditional expression is a relational
  expression, or one followed by \<open>?\<close>, an expression, \<open>:\<close> and an expression; a
  relational expression is a chain of unary expressions joined by \<open>>\<close>, nested to the
  left; a unary expression is \<open>-\<close> and a unary expression, an identifier, a number or
  an expression in parentheses. The first argument bounds the depth of the descent.
\<close>

fun pExpr :: "nat \<Rightarrow> (bool \<times> tok) list \<Rightarrow> (expr \<times> (bool \<times> tok) list) option"
  and pRel :: "nat \<Rightarrow> (bool \<times> tok) list \<Rightarrow> (expr \<times> (bool \<times> tok) list) option"
  and pRelRest ::
    "nat \<Rightarrow> expr \<Rightarrow> (bool \<times> tok) list \<Rightarrow> (expr \<times> (bool \<times> tok) list) option"
  and pUnary :: "nat \<Rightarrow> (bool \<times> tok) list \<Rightarrow> (expr \<times> (bool \<times> tok) list) option"
where
  "pExpr 0 ts = None"
| "pExpr (Suc n) ts =
     (case pRel n ts of
        None \<Rightarrow> None
      | Some (c, r) \<Rightarrow>
          if isP (CHR ''?'') r then
            (case pExpr n (tl r) of
               None \<Rightarrow> None
             | Some (a, r1) \<Rightarrow>
                 if isP (CHR '':'') r1 then
                   (case pExpr n (tl r1) of
                      None \<Rightarrow> None
                    | Some (b, r2) \<Rightarrow> Some (ECond c a b, r2))
                 else None)
          else Some (c, r))"
| "pRel 0 ts = None"
| "pRel (Suc n) ts =
     (case pUnary n ts of None \<Rightarrow> None | Some (l, r) \<Rightarrow> pRelRest n l r)"
| "pRelRest 0 l ts = None"
| "pRelRest (Suc n) l ts =
     (if isP (CHR ''>'') ts then
        (case pUnary n (tl ts) of
           None \<Rightarrow> None
         | Some (e, r) \<Rightarrow> pRelRest n (EGt l e) r)
      else Some (l, ts))"
| "pUnary 0 ts = None"
| "pUnary (Suc n) ts =
     (case ts of
        [] \<Rightarrow> None
      | (nl, TId x) # r \<Rightarrow> if x \<in> set reservedWords then None else Some (EVar x, r)
      | (nl, TNum k) # r \<Rightarrow> Some (ENum k, r)
      | (nl, TPunct c) # r \<Rightarrow>
          if c = CHR ''-'' then
            (case pUnary n r of None \<Rightarrow> None | Some (e, r1) \<Rightarrow> Some (ENeg e, r1))
          else if c = CHR ''('' then
            (case pExpr n r of
               None \<Rightarrow> None
             | Some (e, r1) \<Rightarrow> if isP (CHR '')'') r1 then Some (e, tl r1) else None)
          else None)"

definition parseExpr :: "(bool \<times> tok) list \<Rightarrow> (expr \<times> (bool \<times> tok) list) option" where
  "parseExpr ts = pExpr (4 * length ts + 4) ts"

text \<open>
  Statements. \<open>return\<close> ends at \<open>;\<close> or before \<open>}\<close>; an expression after \<open>return\<close>
  starts on the same line (after a line terminator the host ends the statement at
  once, which is outside the fragment). The bodies of \<open>if\<close>, \<open>else\<close> and \<open>for\<close>
  are blocks. \<open>pStmts\<close> reads statements up to the \<open>}\<close> that closes their block.
\<close>

fun pStmt :: "nat \<Rightarrow> (bool \<times> tok) list \<Rightarrow> (stmt \<times> (bool \<times> tok) list) option"
  and pBlock :: "nat \<Rightarrow> (bool \<times> tok) list \<Rightarrow> (stmt list \<times> (bool \<times> tok) list) option"
  and pStmts :: "nat \<Rightarrow> (bool \<times> tok) list \<Rightarrow> (stmt list \<times> (bool \<times> tok) list) option"
where
  "pStmt 0 ts = None"
| "pStmt (Suc n) ts =
     (if isK ''return'' ts then
        (if isP (CHR '';'') (tl ts) then Some (SReturn None, tl (tl ts))
         else if isP (CHR ''}'') (tl ts) then Some (SReturn None, tl ts)
         else if (case tl ts of [] \<Rightarrow> True | (nl, t) # r \<Rightarrow> nl) then None
         else (case parseExpr (tl ts) of
                 None \<Rightarrow> None
               | Some (e, r1) \<Rightarrow>
                   if isP (CHR '';'') r1 then Some (SReturn (Some e), tl r1)
                   else if isP (CHR ''}'') r1 then Some (SReturn (Some e), r1)
                   else None))
      else if isK ''if'' ts \<and> isP (CHR ''('') (tl ts) then
        (case parseExpr (tl (tl ts)) of
           None \<Rightarrow> None
         | Some (c, r1) \<Rightarrow>
             if isP (CHR '')'') r1 then
               (case pBlock n (tl r1) of
                  None \<Rightarrow> None
                | Some (th, r2) \<Rightarrow>
                    if isK ''else'' r2 then
                      (case pBlock n (tl r2) of
                         None \<Rightarrow> None
                       | Some (el, r3) \<Rightarrow> Some (SIf c th (Some el), r3))
                    else Some (SIf c th None, r2))
             else None)
      else if isK ''for'' ts \<and> isP (CHR ''('') (tl ts) \<and> isK ''const'' (tl (tl ts)) then
        (case tl (tl (tl ts)) of
           (nl, TId x) # r \<Rightarrow>
             if x \<notin> set reservedWords \<and> isK ''of'' r then
               (case parseExpr (tl r) of
                  None \<Rightarrow> None
                | Some (e, r1) \<Rightarrow>
                    if isP (CHR '')'') r1 then
                      (case pBlock n (tl r1) of
                         None \<Rightarrow> None
                       | Some (b, r2) \<Rightarrow> Some (SForOf x e b, r2))
                    else None)
             else None
         | _ \<Rightarrow> None)
      else None)"
| "pBlock 0 ts = None"
| "pBlock (Suc n) ts =
     (if isP (CHR ''{'') ts then
        (case pStmts n (tl ts) of
           None \<Rightarrow> None
         | Some (ss, r) \<Rightarrow> if isP (CHR ''}'') r then Some (ss, tl r) else None)
      else None)"
| "pStmts 0 ts = None"
| "pStmts (Suc n) ts =
     (if isP (CHR ''}'') ts then Some ([], ts)
      else (case pStmt n ts of
              None \<Rightarrow> None
            | Some (s, r) \<Rightarrow>
                (case pStmts n r of None \<Rightarrow> None | Some (ss, r1) \<Rightarrow> Some (s # ss, r1))))"

text \<open>The parameters after the opening parenthesis, up to and with the closing one.\<close>

fun pParamsRest :: "(bool \<times> tok) list \<Rightarrow> (string list \<times> (bool \<times> tok) list) option" where
  "pParamsRest [] = None"
| "pParamsRest ((nl, t) # ts) =
     (if t = TPunct (CHR '')'') then Some ([], ts)
      else if t = TPunct (CHR '','') then
        (case ts of
           (nl', TId x) # r \<Rightarrow>
             if x \<in> set reservedWords then None
             else (case pParamsRest r of None \<Rightarrow> None | Some (ps, r1) \<Rightarrow> Some (x # ps, r1))
         | _ \<Rightarrow> None)
      else None)"

definition pParams :: "(bool \<times> tok) list \<Rightarrow> (string list \<times> (bool \<times> tok) list) option" where
  "pParams ts =
     (case ts of
        (nl, TId x) # r \<Rightarrow>
          if x \<in> set reservedWords then None
          else (case pParamsRest r of None \<Rightarrow> None | Some (ps, r1) \<Rightarrow> Some (x # ps, r1))
      | _ \<Rightarrow> if isP (CHR '')'') ts then Some ([], tl ts) else None)"

text \<open>
  The whole text: \<open>return\<close>, on the same line \<open>function\<close>, the name, the
  parameters, the body in braces, and nothing after it but an optional \<open>;\<close>.
\<close>

definition jsParse :: "string \<Rightarrow> program option" where
  "jsParse text =
     (case jsLex False text of
        None \<Rightarrow> None
      | Some ts \<Rightarrow>
          if isK ''return'' ts \<and> isK ''function'' (tl ts) \<and>
             \<not> (case tl ts of [] \<Rightarrow> True | (nl, t) # r \<Rightarrow> nl) \<and>
             isP (CHR ''('') (tl (tl (tl ts)))
          then
            (case tl (tl ts) of
               (nl, TId name) # r \<Rightarrow>
                 if name \<in> set reservedWords then None
                 else
                   (case pParams (tl r) of
                      None \<Rightarrow> None
                    | Some (ps, r1) \<Rightarrow>
                        (case pBlock (2 * length r1 + 2) r1 of
                           None \<Rightarrow> None
                         | Some (b, r2) \<Rightarrow>
                             if r2 = [] \<or> (isP (CHR '';'') r2 \<and> tl r2 = [])
                             then Some \<lparr>fname = name, fparams = ps, fbody = b\<rparr>
                             else None))
             | _ \<Rightarrow> None)
          else None)"

text \<open>
  Evaluation. The variables in scope are the parameters and the loop variables, the
  nearest binding first. \<open>ToBoolean\<close> of a value; \<open>-\<close> and \<open>>\<close> on numbers (on other
  values the host converts first, which is outside the fragment).
\<close>

fun truthy :: "jsval \<Rightarrow> bool" where
  "truthy JUndefined = False"
| "truthy JNull = False"
| "truthy (JBool b) = b"
| "truthy (JNum x) = (x \<noteq> 0)"
| "truthy (JStr s) = (s \<noteq> [])"
| "truthy (JArr xs) = True"
| "truthy (JObj kvs) = True"

fun evalE :: "(string \<times> jsval) list \<Rightarrow> expr \<Rightarrow> jsval option" where
  "evalE env (EVar x) = map_of env x"
| "evalE env (ENum k) = Some (JNum (real k))"
| "evalE env (ENeg e) =
     (case evalE env e of Some (JNum x) \<Rightarrow> Some (JNum (- x)) | _ \<Rightarrow> None)"
| "evalE env (EGt a b) =
     (case evalE env a of
        Some (JNum x) \<Rightarrow>
          (case evalE env b of Some (JNum y) \<Rightarrow> Some (JBool (x > y)) | _ \<Rightarrow> None)
      | _ \<Rightarrow> None)"
| "evalE env (ECond c a b) =
     (case evalE env c of
        None \<Rightarrow> None
      | Some v \<Rightarrow> if truthy v then evalE env a else evalE env b)"

fun mentions :: "string \<Rightarrow> expr \<Rightarrow> bool" where
  "mentions x (EVar y) = (x = y)"
| "mentions x (ENum k) = False"
| "mentions x (ENeg e) = mentions x e"
| "mentions x (EGt a b) = (mentions x a \<or> mentions x b)"
| "mentions x (ECond c a b) = (mentions x c \<or> mentions x a \<or> mentions x b)"

text \<open>How a statement ends: it runs to its end, or it returns a value.\<close>

datatype completion = Normal | Return jsval

text \<open>
  \<open>for (const x of e)\<close> runs its block once for each element of the array \<open>e\<close>, with
  \<open>x\<close> bound to the element; \<open>e\<close> is evaluated where \<open>x\<close> is declared and not yet
  initialised, so an \<open>e\<close> that names \<open>x\<close> is outside the fragment, as is an \<open>e\<close> that
  is not an array.
\<close>

fun exec :: "(string \<times> jsval) list \<Rightarrow> stmt \<Rightarrow> completion option"
  and execs :: "(string \<times> jsval) list \<Rightarrow> stmt list \<Rightarrow> completion option"
  and execFor ::
    "(string \<times> jsval) list \<Rightarrow> string \<Rightarrow> stmt list \<Rightarrow> jsval list \<Rightarrow> completion option"
where
  "exec env (SReturn None) = Some (Return JUndefined)"
| "exec env (SReturn (Some e)) =
     (case evalE env e of None \<Rightarrow> None | Some v \<Rightarrow> Some (Return v))"
| "exec env (SIf c th None) =
     (case evalE env c of
        None \<Rightarrow> None
      | Some v \<Rightarrow> if truthy v then execs env th else Some Normal)"
| "exec env (SIf c th (Some el)) =
     (case evalE env c of
        None \<Rightarrow> None
      | Some v \<Rightarrow> if truthy v then execs env th else execs env el)"
| "exec env (SForOf x e b) =
     (if mentions x e then None
      else (case evalE env e of Some (JArr vs) \<Rightarrow> execFor env x b vs | _ \<Rightarrow> None))"
| "execs env [] = Some Normal"
| "execs env (s # ss) =
     (case exec env s of
        None \<Rightarrow> None
      | Some Normal \<Rightarrow> execs env ss
      | Some (Return v) \<Rightarrow> Some (Return v))"
| "execFor env x b [] = Some Normal"
| "execFor env x b (v # vs) =
     (case execs ((x, v) # env) b of
        None \<Rightarrow> None
      | Some Normal \<Rightarrow> execFor env x b vs
      | Some (Return w) \<Rightarrow> Some (Return w))"



section \<open>Fixtures\<close>

text \<open>
  A concrete host, callables and test cases for the closed instances below. The
  theorems hold for every host; this one is small: its state is a clock that every call
  advances by one tick, its \<open>JSON.stringify\<close> serialises \<open>null\<close> and the booleans
  as the real one does and gives \<open>undefined\<close> for every other value, its \<open>String\<close>
  converts \<open>null\<close> and the booleans and throws a \<open>TypeError\<close> on every other value,
  and its \<open>new Function\<close> builds the same callable from every text.
\<close>

definition stringifyAtom :: "jsval \<Rightarrow> thrown + string option" where
  "stringifyAtom v =
     (case v of
        JNull \<Rightarrow> Inr (Some ''null'')
      | JBool b \<Rightarrow> Inr (Some (if b then ''true'' else ''false''))
      | _ \<Rightarrow> Inr None)"

definition stringAtom :: "jsval \<Rightarrow> thrown + string" where
  "stringAtom v =
     (case v of
        JNull \<Rightarrow> Inr ''null''
      | JBool b \<Rightarrow> Inr (if b then ''true'' else ''false'')
      | _ \<Rightarrow> Inl (ErrorObject ''Cannot convert object to primitive value''))"

text \<open>A callable with \<open>n\<close> declared parameters that returns the array of its arguments.\<close>

definition probe :: "nat \<Rightarrow> nat jsfun" where
  "probe n = \<lparr>arity = n, call = (\<lambda>args h. Returns (JArr args) (Suc h))\<rparr>"

text \<open>
  \<open>function (x) { if (x === null) throw new Error('boom'); if (x === undefined) throw
  Object.create(null); return x; }\<close>
\<close>

definition failsOnNull :: "nat jsfun" where
  "failsOnNull =
     \<lparr>arity = 1,
      call = (\<lambda>args h. if args = [JNull] then Throws (ErrorObject ''boom'') (Suc h)
                        else if args = [JUndefined] then Throws (NonError (JObj [])) (Suc h)
                        else Returns (case args of [] \<Rightarrow> JUndefined | x # _ \<Rightarrow> x) (Suc h))\<rparr>"

definition fixtureHost :: "nat host" where
  "fixtureHost =
     \<lparr>JSON_stringify = stringifyAtom, String_of = stringAtom, performance_now = real,
      new_Function = (\<lambda>jsCode. Inr failsOnNull)\<rparr>"

definition caseOf :: "jsval \<Rightarrow> jsval \<Rightarrow> testCase" where
  "caseOf i e = \<lparr>input = i, expected = e\<rparr>"

text \<open>
  A problem with one visible case, one whose case makes the \<open>catch\<close> block throw, and
  a stopped scene left over from an earlier game.
\<close>

definition demoProblem :: problem where
  "demoProblem = \<lparr>parameters = [''x''], testCases = [caseOf JNull JNull], hiddenTestCases = None\<rparr>"


definition staleScene :: "nat scene" where
  "staleScene =
     \<lparr>problem = \<lparr>parameters = [], testCases = [], hiddenTestCases = None\<rparr>,
      failedAttempts = 3, hostState = 0, overlay = NoOverlay, running = False,
      closeScheduled = False, gameOver = True\<rparr>"

section \<open>Example sources\<close>

text \<open>The message that reaches \<open>showError\<close> when line 750 throws.\<close>

definition missingDefMessage :: string where
  "missingDefMessage =
     ''Compilation error: Python transpilation error: Could not find Python function definition''"

text \<open>A function with the nesting if, for, if, and the body emitted for it.\<close>

definition nestedSource :: string where
  "nestedSource =
     joinNL [''def f(x):'',
             ''    if x > 0:'',
             ''        for i in x:'',
             ''            if i > 1:'',
             ''                return i'']"

definition nestedBody :: string where
  "nestedBody =
     joinNL [''if (x > 0) {'',
             ''for (const i of x) {'',
             ''        if (i > 1) {'',
             ''            return i'',
             ''            }'',
             ''        }'',
             ''    }'',
             '''']"

text \<open>The syntax tree of the function that this body stands for.\<close>

definition nestedProgram :: program where
  "nestedProgram =
     \<lparr>fname = ''f'', fparams = [''x''],
      fbody =
        [SIf (EGt (EVar ''x'') (ENum 0))
           [SForOf ''i'' (EVar ''x'')
              [SIf (EGt (EVar ''i'') (ENum 1)) [SReturn (Some (EVar ''i''))] None]]
           None]\<rparr>"

text \<open>A function with an \<open>if\<close> and its \<open>else\<close>, and the body emitted for it.\<close>

definition elseSource :: string where
  "elseSource =
     joinNL [''def f(x):'',
             ''    if x > 0:'',
             ''        return 1'',
             ''    else:'',
             ''        return 2'']"

definition elseBody :: string where
  "elseBody =
     joinNL [''if (x > 0) {'',
             ''    return 1'',
             ''    }'',
             ''} else {'',
             ''    return 2'',
             '''']"





section \<open>Properties of the harness\<close>

lemma catchBlock_Error:
  "catchBlock hst tc (ErrorObject m) h =
     Returns \<lparr>passed = False, rinput = input tc, rexpected = expected tc, actual = JNull,
              error = Some m, executionTime = 0\<rparr> h"
  by (simp add: catchBlock_def errorMessage_def)

lemma catchBlock_not_Hangs: "catchBlock hst tc e h \<noteq> Hangs"
  by (simp add: catchBlock_def split: sum.splits)

lemma catchBlock_Returns:
  "catchBlock hst tc e h = Returns r h' \<Longrightarrow>
   \<not> passed r \<and> rinput r = input tc \<and> rexpected r = expected tc \<and> actual r = JNull \<and>
   error r \<noteq> None \<and> h' = h"
  by (auto simp: catchBlock_def split: sum.splits)



lemma runCase_Returns:
  "call f (callArgs k (input tc)) h = Returns v h' \<Longrightarrow>
   JSON_stringify hst v = Inr sa \<Longrightarrow> JSON_stringify hst (expected tc) = Inr se \<Longrightarrow>
   runCase hst k f tc h =
     Returns \<lparr>passed = (sa = se), rinput = input tc, rexpected = expected tc, actual = v,
              error = None,
              executionTime = performance_now hst h' - performance_now hst h\<rparr> h'"
  by (simp add: runCase_def Let_def)

lemma runCase_passed:
  "call f (callArgs k (input tc)) h = Returns v h' \<Longrightarrow>
   runCase hst k f tc h = Returns r h'' \<Longrightarrow>
   passed r \<longleftrightarrow>
     (\<exists>t. JSON_stringify hst v = Inr t \<and> JSON_stringify hst (expected tc) = Inr t)"
  by (auto simp: runCase_def Let_def split: sum.splits dest: catchBlock_Returns)

lemma runCase_Hangs:
  "runCase hst k f tc h = Hangs \<longleftrightarrow> call f (callArgs k (input tc)) h = Hangs"
  by (auto simp: runCase_def Let_def catchBlock_not_Hangs split: run.splits sum.splits)






lemma fixture_calls:
  "call (probe n) args h = Returns (JArr args) (Suc h)"
  "call failsOnNull [JNull] h = Throws (ErrorObject ''boom'') (Suc h)"
  "call failsOnNull [JUndefined] h = Throws (NonError (JObj [])) (Suc h)"
  "call failsOnNull [JBool b] h = Returns (JBool b) (Suc h)"
  by (simp_all add: probe_def failsOnNull_def)

lemma fixture_host:
  "JSON_stringify fixtureHost = stringifyAtom"
  "String_of fixtureHost = stringAtom"
  "performance_now fixtureHost = real"
  "new_Function fixtureHost js = Inr failsOnNull"
  "errorMessage fixtureHost (ErrorObject m) = Inr m"
  "errorMessage fixtureHost (NonError (JObj [])) =
     Inl (ErrorObject ''Cannot convert object to primitive value'')"
  by (simp_all add: fixtureHost_def errorMessage_def stringAtom_def)

lemma fixture_compile:
  "evaluateUserCode fixtureHost ''def f(x):'' = Inr failsOnNull"
  "evaluateUserCode fixtureHost ''x = 1'' =
     Inl ''Compilation error: Python transpilation error: Could not find Python function definition''"
proof -
  have "generatedJS ''def f(x):'' \<noteq> None" by code_simp
  then show "evaluateUserCode fixtureHost ''def f(x):'' = Inr failsOnNull"
    by (auto simp: evaluateUserCode_def transpilePythonToJS_def fixture_host)
  have "generatedJS ''x = 1'' = None" by code_simp
  then show "evaluateUserCode fixtureHost ''x = 1'' =
     Inl ''Compilation error: Python transpilation error: Could not find Python function definition''"
    by (simp add: evaluateUserCode_def transpilePythonToJS_def)
qed

lemma fixture_runCase:
  "runCase fixtureHost k failsOnNull (caseOf JNull e) h =
     Returns \<lparr>passed = False, rinput = JNull, rexpected = e, actual = JNull,
              error = Some ''boom'', executionTime = 0\<rparr> (Suc h)"
  "runCase fixtureHost k failsOnNull (caseOf JUndefined e) h =
     Throws (ErrorObject ''Cannot convert object to primitive value'') (Suc h)"
  "runCase fixtureHost k failsOnNull (caseOf (JBool b) (JBool b')) h =
     Returns \<lparr>passed = (b = b'), rinput = JBool b, rexpected = JBool b', actual = JBool b,
              error = None, executionTime = 1\<rparr> (Suc h)"
  by (auto simp: runCase_def catchBlock_def Let_def callArgs_def caseOf_def fixture_calls
        fixture_host stringifyAtom_def)

text \<open>
  C1, as the code has it. The arguments of the call are the elements of the input when
  the input is an array whose length is \<open>k\<close>, and the input alone otherwise; the result
  of a case depends on the callable through this one call only, and where the call
  returns and the case's result reports no error, its \<open>actual\<close> is what the call
  returned; and the \<open>k\<close> that \<open>runTests\<close> (over the visible cases) and
  \<open>submitSolution\<close> (over the visible and the hidden cases) use is the number of
  parameters the problem declares (\<open>this.problem.parameters.length\<close>), whatever the
  compiled callable declares.
\<close>

theorem C1_call_arguments:
  "(length xs = k \<longrightarrow> callArgs k (JArr xs) = xs) \<and>
   (length xs \<noteq> k \<longrightarrow> callArgs k (JArr xs) = [JArr xs]) \<and>
   ((\<forall>ys. v \<noteq> JArr ys) \<longrightarrow> callArgs k v = [v]) \<and>
   (call f (callArgs k (input tc)) h = call g (callArgs k (input tc)) h \<longrightarrow>
      runCase hst k f tc h = runCase hst k g tc h) \<and>
   (call f (callArgs k (input tc)) h = Returns w h' \<and>
    runCase hst k f tc h = Returns r h'' \<and> error r = None \<longrightarrow> actual r = w \<and> h'' = h') \<and>
   (evaluateUserCode hst code = Inr f \<longrightarrow>
      runTests hst code s =
        (case mapCases hst (length (parameters (problem s))) f (testCases (problem s))
                (hostState s) of
           Returns rs g' \<Rightarrow>
             Some (s\<lparr>hostState := g', overlay := ResultsOverlay rs False None\<rparr>)
         | Throws e g' \<Rightarrow>
             Some (s\<lparr>hostState := g', overlay := ErrorOverlay (outerMessage e)\<rparr>)
         | Hangs \<Rightarrow> None)) \<and>
   (evaluateUserCode hst code = Inr f \<longrightarrow>
      map_option hostState (submitSolution hst code s) =
        (case mapCases hst (length (parameters (problem s))) f
                (testCases (problem s) @
                 (case hiddenTestCases (problem s) of None \<Rightarrow> [] | Some hs \<Rightarrow> hs))
                (hostState s) of
           Returns rs g' \<Rightarrow> Some g'
         | Throws e g' \<Rightarrow> Some g'
         | Hangs \<Rightarrow> None))"
proof (intro conjI impI)
  assume "\<forall>ys. v \<noteq> JArr ys"
  then show "callArgs k v = [v]"
    by (cases v) (simp_all add: callArgs_def)
next
  assume "call f (callArgs k (input tc)) h = call g (callArgs k (input tc)) h"
  then show "runCase hst k f tc h = runCase hst k g tc h"
    by (simp add: runCase_def Let_def)
next
  assume a: "call f (callArgs k (input tc)) h = Returns w h' \<and>
    runCase hst k f tc h = Returns r h'' \<and> error r = None"
  then show "actual r = w"
    by (auto simp: runCase_def Let_def split: sum.splits dest: catchBlock_Returns)
  from a show "h'' = h'"
    by (auto simp: runCase_def Let_def split: sum.splits dest: catchBlock_Returns)
next
  assume "evaluateUserCode hst code = Inr f"
  then show "runTests hst code s =
        (case mapCases hst (length (parameters (problem s))) f (testCases (problem s))
                (hostState s) of
           Returns rs g' \<Rightarrow>
             Some (s\<lparr>hostState := g', overlay := ResultsOverlay rs False None\<rparr>)
         | Throws e g' \<Rightarrow>
             Some (s\<lparr>hostState := g', overlay := ErrorOverlay (outerMessage e)\<rparr>)
         | Hangs \<Rightarrow> None)"
    by (simp add: runTests_def showTestResults_def showError_def split: run.splits)
next
  assume "evaluateUserCode hst code = Inr f"
  then show "map_option hostState (submitSolution hst code s) =
        (case mapCases hst (length (parameters (problem s))) f
                (testCases (problem s) @
                 (case hiddenTestCases (problem s) of None \<Rightarrow> [] | Some hs \<Rightarrow> hs))
                (hostState s) of
           Returns rs g' \<Rightarrow> Some g'
         | Throws e g' \<Rightarrow> Some g'
         | Hangs \<Rightarrow> None)"
    by (simp add: submitSolution_def showSuccess_def showTestResults_def triggerGameOver_def
          showError_def Let_def split: run.splits)
qed (simp_all add: callArgs_def)

theorem C1_call_arguments_witness:
  "callArgs 2 (JArr [JNum 1, JNum 2]) = [JNum 1, JNum 2] \<and>
   callArgs 2 (JArr [JNum 1, JNum 2, JNum 3]) = [JArr [JNum 1, JNum 2, JNum 3]] \<and>
   callArgs 2 (JNum 7) = [JNum 7] \<and>
   runCase fixtureHost 2 (probe 2) (caseOf (JArr [JNum 1, JNum 2]) JNull) 0 =
     runCase fixtureHost 2 (probe 5) (caseOf (JArr [JNum 1, JNum 2]) JNull) 0 \<and>
   runCase fixtureHost 2 failsOnNull (caseOf (JBool True) (JBool False)) 0 =
     Returns \<lparr>passed = False, rinput = JBool True, rexpected = JBool False,
              actual = JBool True, error = None, executionTime = 1\<rparr> 1 \<and>
   runTests fixtureHost ''def f(x):'' (create demoProblem staleScene) =
     Some ((create demoProblem staleScene)
             \<lparr>hostState := 1,
              overlay := ResultsOverlay
                [\<lparr>passed = False, rinput = JNull, rexpected = JNull, actual = JNull,
                  error = Some ''boom'', executionTime = 0\<rparr>] False None\<rparr>) \<and>
   map_option hostState
     (submitSolution fixtureHost ''def f(x):'' (create demoProblem staleScene)) = Some 1"
proof -
  let ?s = "create demoProblem staleScene :: nat scene"
  have s: "problem ?s = demoProblem" "hostState ?s = 0"
    by (simp_all add: create_def staleScene_def)
  have dp: "length (parameters demoProblem) = Suc 0" "testCases demoProblem = [caseOf JNull JNull]"
    "hiddenTestCases demoProblem = None"
    by (simp_all add: demoProblem_def)
  have pr: "call (probe 2) (callArgs 2 (input (caseOf (JArr [JNum 1, JNum 2]) JNull))) 0 =
            call (probe 5) (callArgs 2 (input (caseOf (JArr [JNum 1, JNum 2]) JNull))) 0"
    by (simp add: fixture_calls)
  have ca: "call failsOnNull (callArgs 2 (input (caseOf (JBool True) (JBool False)))) 0 =
            Returns (JBool True) 1"
    by (simp add: callArgs_def caseOf_def fixture_calls)
  have mc: "mapCases fixtureHost (Suc 0) failsOnNull [caseOf JNull JNull] 0 =
      Returns [\<lparr>passed = False, rinput = JNull, rexpected = JNull, actual = JNull,
                error = Some ''boom'', executionTime = 0\<rparr>] 1"
    by (simp add: fixture_runCase)
  note a = C1_call_arguments [of "[JNum 1, JNum 2]" 2 "JNum 7" "probe 2"
        "caseOf (JArr [JNum 1, JNum 2]) JNull" 0 "probe 5" fixtureHost]
  note b = C1_call_arguments [of "[JNum 1, JNum 2, JNum 3]" 2 "JNum 7" failsOnNull
        "caseOf (JBool True) (JBool False)" 0 failsOnNull fixtureHost "JBool True" 1 _ _
        "''def f(x):''" ?s]
  note c = C1_call_arguments [of "[JNum 1, JNum 2, JNum 3]" 2 "JNum 7" failsOnNull
        "caseOf (JBool True) (JBool False)" 0 failsOnNull fixtureHost "JBool True" 1]
  from a pr have 1: "callArgs 2 (JArr [JNum 1, JNum 2]) = [JNum 1, JNum 2] \<and>
     callArgs 2 (JNum 7) = [JNum 7] \<and>
     runCase fixtureHost 2 (probe 2) (caseOf (JArr [JNum 1, JNum 2]) JNull) 0 =
     runCase fixtureHost 2 (probe 5) (caseOf (JArr [JNum 1, JNum 2]) JNull) 0"
    by simp
  from b have 2: "callArgs 2 (JArr [JNum 1, JNum 2, JNum 3]) = [JArr [JNum 1, JNum 2, JNum 3]]"
    by simp
  let ?r = "\<lparr>passed = False, rinput = JBool True, rexpected = JBool False,
              actual = JBool True, error = None, executionTime = 1\<rparr>"
  have rc: "runCase fixtureHost 2 failsOnNull (caseOf (JBool True) (JBool False)) 0 =
      Returns ?r 1"
    by (simp add: fixture_runCase)
  from c [of ?r 1, THEN conjunct2, THEN conjunct2, THEN conjunct2, THEN conjunct2,
      THEN conjunct1] ca rc
  have "actual ?r = JBool True \<and> (1::nat) = 1" by simp
  with rc have 3: "runCase fixtureHost 2 failsOnNull (caseOf (JBool True) (JBool False)) 0 =
     Returns \<lparr>passed = False, rinput = JBool True, rexpected = JBool False,
              actual = JBool True, error = None, executionTime = 1\<rparr> 1"
    by simp
  from b have "runTests fixtureHost ''def f(x):'' ?s =
        (case mapCases fixtureHost (length (parameters (problem ?s))) failsOnNull
                (testCases (problem ?s)) (hostState ?s) of
           Returns rs g' \<Rightarrow>
             Some (?s\<lparr>hostState := g', overlay := ResultsOverlay rs False None\<rparr>)
         | Throws e g' \<Rightarrow>
             Some (?s\<lparr>hostState := g', overlay := ErrorOverlay (outerMessage e)\<rparr>)
         | Hangs \<Rightarrow> None)"
    using fixture_compile(1) by blast
  then have 4: "runTests fixtureHost ''def f(x):'' ?s =
     Some (?s\<lparr>hostState := 1,
              overlay := ResultsOverlay
                [\<lparr>passed = False, rinput = JNull, rexpected = JNull, actual = JNull,
                  error = Some ''boom'', executionTime = 0\<rparr>] False None\<rparr>)"
    by (simp add: s dp mc del: mapCases.simps)
  from b have "map_option hostState (submitSolution fixtureHost ''def f(x):'' ?s) =
        (case mapCases fixtureHost (length (parameters (problem ?s))) failsOnNull
                (testCases (problem ?s) @
                 (case hiddenTestCases (problem ?s) of None \<Rightarrow> [] | Some hs \<Rightarrow> hs))
                (hostState ?s) of
           Returns rs g' \<Rightarrow> Some g'
         | Throws e g' \<Rightarrow> Some g'
         | Hangs \<Rightarrow> None)"
    using fixture_compile(1) by blast
  then have 5: "map_option hostState (submitSolution fixtureHost ''def f(x):'' ?s) = Some 1"
    by (simp add: s dp mc del: mapCases.simps)
  from 1 2 3 4 5 show ?thesis by blast
qed

text \<open>
  C1 as stated reads \<open>k\<close> off the compiled callable. The harness does not: for a problem
  that declares one parameter and a callable that declares two, the input \<open>[1, 2]\<close> is
  passed as one argument, although its length is the callable's parameter count.
\<close>

theorem C1_counterexample:
  "length [JNum 1, JNum 2] = arity (probe 2) \<and>
   runCase fixtureHost (length [''nums'']) (probe 2) (caseOf (JArr [JNum 1, JNum 2]) JNull) 0 =
     Returns \<lparr>passed = False, rinput = JArr [JNum 1, JNum 2], rexpected = JNull,
              actual = JArr [JArr [JNum 1, JNum 2]], error = None, executionTime = 1\<rparr> 1 \<and>
   JArr [JArr [JNum 1, JNum 2]] \<noteq> JArr [JNum 1, JNum 2]"
  by (simp add: runCase_def Let_def callArgs_def caseOf_def probe_def fixture_host
        stringifyAtom_def)







text \<open>
  C5. When the invocation returns a value and \<open>JSON.stringify\<close> serialises it and the
  expected value, the case's result holds the returned value and has passed exactly when
  the two serialisations are equal; and whenever the invocation returns and the case
  has a result, it has passed exactly when \<open>JSON.stringify\<close> serialises the value and the
  expected value, and to the same result. The callback does not hang once the
  invocation has returned.
\<close>

theorem C5_passed_iff_same_serialization:
  assumes "call f (callArgs k (input tc)) h = Returns v h'"
  shows "(\<forall>sa se. JSON_stringify hst v = Inr sa \<and> JSON_stringify hst (expected tc) = Inr se \<longrightarrow>
            runCase hst k f tc h =
              Returns \<lparr>passed = (sa = se), rinput = input tc, rexpected = expected tc,
                       actual = v, error = None,
                       executionTime = performance_now hst h' - performance_now hst h\<rparr> h') \<and>
         (\<forall>r h''. runCase hst k f tc h = Returns r h'' \<longrightarrow>
            (passed r \<longleftrightarrow>
               (\<exists>t. JSON_stringify hst v = Inr t \<and> JSON_stringify hst (expected tc) = Inr t))) \<and>
         runCase hst k f tc h \<noteq> Hangs"
proof (intro conjI allI impI)
  fix sa se
  assume "JSON_stringify hst v = Inr sa \<and> JSON_stringify hst (expected tc) = Inr se"
  with assms show "runCase hst k f tc h =
              Returns \<lparr>passed = (sa = se), rinput = input tc, rexpected = expected tc,
                       actual = v, error = None,
                       executionTime = performance_now hst h' - performance_now hst h\<rparr> h'"
    by (simp add: runCase_Returns)
next
  fix r h''
  assume "runCase hst k f tc h = Returns r h''"
  with assms show "passed r \<longleftrightarrow>
               (\<exists>t. JSON_stringify hst v = Inr t \<and> JSON_stringify hst (expected tc) = Inr t)"
    by (rule runCase_passed)
next
  from assms show "runCase hst k f tc h \<noteq> Hangs"
    by (simp add: runCase_Hangs)
qed

theorem C5_passed_iff_same_serialization_witness:
  "runCase fixtureHost 1 failsOnNull (caseOf (JBool True) (JBool True)) 0 =
     Returns \<lparr>passed = True, rinput = JBool True, rexpected = JBool True, actual = JBool True,
              error = None, executionTime = 1\<rparr> 1 \<and>
   runCase fixtureHost 1 failsOnNull (caseOf (JBool True) (JBool False)) 0 =
     Returns \<lparr>passed = False, rinput = JBool True, rexpected = JBool False, actual = JBool True,
              error = None, executionTime = 1\<rparr> 1"
proof -
  have r: "call failsOnNull (callArgs 1 (input (caseOf (JBool True) e))) 0 =
           Returns (JBool True) (Suc 0)" for e
    by (simp add: callArgs_def caseOf_def fixture_calls)
  have s: "JSON_stringify fixtureHost (JBool True) = Inr (Some ''true'') \<and>
           JSON_stringify fixtureHost (expected (caseOf (JBool True) (JBool True))) =
             Inr (Some ''true'')"
    "JSON_stringify fixtureHost (JBool True) = Inr (Some ''true'') \<and>
           JSON_stringify fixtureHost (expected (caseOf (JBool True) (JBool False))) =
             Inr (Some ''false'')"
    by (simp_all add: fixture_host stringifyAtom_def caseOf_def)
  from C5_passed_iff_same_serialization [where hst = fixtureHost
      and tc = "caseOf (JBool True) (JBool True)", OF r] s(1)
  have 1: "runCase fixtureHost 1 failsOnNull (caseOf (JBool True) (JBool True)) 0 =
     Returns \<lparr>passed = (Some ''true'' = Some ''true''),
              rinput = input (caseOf (JBool True) (JBool True)),
              rexpected = expected (caseOf (JBool True) (JBool True)), actual = JBool True,
              error = None,
              executionTime = performance_now fixtureHost (Suc 0) - performance_now fixtureHost 0\<rparr>
       (Suc 0)"
    by blast
  from C5_passed_iff_same_serialization [where hst = fixtureHost
      and tc = "caseOf (JBool True) (JBool False)", OF r] s(2)
  have 2: "runCase fixtureHost 1 failsOnNull (caseOf (JBool True) (JBool False)) 0 =
     Returns \<lparr>passed = (Some ''true'' = Some ''false''),
              rinput = input (caseOf (JBool True) (JBool False)),
              rexpected = expected (caseOf (JBool True) (JBool False)), actual = JBool True,
              error = None,
              executionTime = performance_now fixtureHost (Suc 0) - performance_now fixtureHost 0\<rparr>
       (Suc 0)"
    by blast
  from 1 2 show ?thesis by (simp add: caseOf_def fixture_host)
qed

section \<open>The failed-attempt counter\<close>





lemma submitSolution_Hangs:
  "evaluateUserCode hst code = Inr f \<Longrightarrow>
   mapCases hst (length (parameters (problem s))) f
     (testCases (problem s) @ (case hiddenTestCases (problem s) of None \<Rightarrow> [] | Some hs \<Rightarrow> hs))
     (hostState s) = Hangs \<Longrightarrow>
   submitSolution hst code s = None"
  by (simp add: submitSolution_def)














section \<open>Properties of the matcher\<close>

text \<open>
  What the matcher does on a text of a known shape: a literal text in the pattern, a
  lazy group that cannot end before the first blank followed by a keyword, a single
  blank, a greedy group at the end of the text.
\<close>

lemma advance_0 [simp]: "advance 0 st = st"
  by (simp add: advance_def)

lemma advance_advance: "advance j (advance i st) = advance (i + j) st"
  by (simp add: advance_def take_add add.commute)

lemma advance_append:
  "advance (length xs) \<lparr>seen = b, rest = xs @ ys, caps = cs\<rparr> =
     \<lparr>seen = rev xs @ b, rest = ys, caps = cs\<rparr>"
  by (simp add: advance_def)

lemma startsWith_Nil [simp]: "startsWith s []"
  by (simp add: startsWith_def)

lemma startsWith_Cons: "startsWith s (x # w) \<longleftrightarrow> (\<exists>t. s = x # t \<and> startsWith t w)"
  by (cases s) (auto simp: startsWith_def)

lemma startsWith_append_same [simp]: "startsWith (w @ t) w"
  by (simp add: startsWith_def)

lemma matches_str:
  "matches (str w @ r) st =
     (if startsWith (rest st) w then matches r (advance (length w) st) else [])"
proof (induction w arbitrary: st)
  case Nil
  then show ?case by (simp add: str_def)
next
  case (Cons x w)
  have s: "str (x # w) @ r = One (Lit x) # (str w @ r)" by (simp add: str_def)
  show ?case
  proof (cases "rest st")
    case Nil
    then show ?thesis by (simp add: s startsWith_Cons)
  next
    case (Cons y ys)
    have r1: "rest (advance 1 st) = ys" using Cons by (simp add: advance_def)
    show ?thesis
      using Cons Cons.IH [of "advance 1 st"] r1
      by (auto simp: s startsWith_Cons advance_advance)
  qed
qed







lemma inCls_funs:
  "inCls SpaceC = isSpace" "inCls WordC = isWordChar"
  "inCls AnyChar = (\<lambda>x. \<not> isLineTerminator x)"
  by (rule ext, simp)+


lemma le_runLen_iff:
  "k \<le> runLen c st \<longleftrightarrow>
     (\<exists>xs ys. rest st = xs @ ys \<and> length xs = k \<and> list_all (inCls c) xs)"
proof
  assume k: "k \<le> runLen c st"
  let ?l = "rest st"
  have "take k ?l = take k (takeWhile (inCls c) ?l @ dropWhile (inCls c) ?l)" by simp
  also have "\<dots> = take k (takeWhile (inCls c) ?l)"
    using k by (simp add: runLen_def del: takeWhile_dropWhile_id)
  finally have "set (take k ?l) \<subseteq> set (takeWhile (inCls c) ?l)"
    by (metis set_take_subset)
  then have "list_all (inCls c) (take k ?l)"
    by (auto simp: list_all_iff dest: set_takeWhileD)
  moreover have "length (take k ?l) = k"
    using k length_takeWhile_le [of "inCls c" ?l] by (simp add: runLen_def)
  moreover have "?l = take k ?l @ drop k ?l" by simp
  ultimately show "\<exists>xs ys. rest st = xs @ ys \<and> length xs = k \<and> list_all (inCls c) xs"
    by blast
next
  assume "\<exists>xs ys. rest st = xs @ ys \<and> length xs = k \<and> list_all (inCls c) xs"
  then obtain xs ys where x: "rest st = xs @ ys" "length xs = k" "list_all (inCls c) xs"
    by blast
  then have "takeWhile (inCls c) (rest st) = xs @ takeWhile (inCls c) ys"
    by (simp add: list_all_iff)
  with x(2) show "k \<le> runLen c st" by (simp add: runLen_def)
qed




lemma greedy_one: "matches [Plus c] st = map (\<lambda>k. advance k st) (rev [1 ..< Suc (runLen c st)])"
  by (simp add: concat_map_singleton)











text \<open>
  When the matcher finds a match at all: a pattern without assertions matches at a
  position exactly when the text there splits into the parts the pattern names. For
  the pattern of line 748 that is the header \<open>def <name>(<params>):\<close>.
\<close>

lemma concat_map_ne: "concat (map F ks) \<noteq> [] \<longleftrightarrow> (\<exists>k \<in> set ks. F k \<noteq> [])"
  by (induction ks) auto

lemma bex_upt: "(\<exists>k \<in> set [i ..< Suc n]. P k) \<longleftrightarrow> (\<exists>k. i \<le> k \<and> k \<le> n \<and> P k)"
  unfolding set_upt Bex_def atLeastLessThan_iff less_Suc_eq_le by blast

lemma matches_ne_One:
  "matches (One c # r) st \<noteq> [] \<longleftrightarrow>
     (\<exists>x xs. rest st = x # xs \<and> inCls c x \<and> matches r (advance 1 st) \<noteq> [])"
  by (cases "rest st") auto

lemma matches_ne_Plus:
  "matches (Plus c # r) st \<noteq> [] \<longleftrightarrow>
     (\<exists>k. 1 \<le> k \<and> k \<le> runLen c st \<and> matches r (advance k st) \<noteq> [])"
  by (simp only: matches.simps concat_map_ne set_rev bex_upt)

lemma matches_ne_Star:
  "matches (Star c # r) st \<noteq> [] \<longleftrightarrow>
     (\<exists>k. k \<le> runLen c st \<and> matches r (advance k st) \<noteq> [])"
  by (simp only: matches.simps concat_map_ne set_rev bex_upt) simp

lemma matches_ne_Grp_Plus:
  "matches (Grp [Plus c] # r) st \<noteq> [] \<longleftrightarrow>
     (\<exists>k. 1 \<le> k \<and> k \<le> runLen c st \<and>
          matches r ((advance k st)\<lparr>caps := caps (advance k st) @
              [take (length (rest st) - length (rest (advance k st))) (rest st)]\<rparr>) \<noteq> [])"
  by (simp only: matches.simps(7) greedy_one concat_map_ne list.map_comp comp_def set_map
        bex_simps set_rev bex_upt)

lemma starlazy_one: "matches [StarLazy c] st = map (\<lambda>k. advance k st) [0 ..< Suc (runLen c st)]"
  by (simp add: concat_map_singleton)

lemma matches_ne_Grp_StarLazy:
  "matches (Grp [StarLazy c] # r) st \<noteq> [] \<longleftrightarrow>
     (\<exists>k. k \<le> runLen c st \<and>
          matches r ((advance k st)\<lparr>caps := caps (advance k st) @
              [take (length (rest st) - length (rest (advance k st))) (rest st)]\<rparr>) \<noteq> [])"
  by (simp only: matches.simps(7) starlazy_one concat_map_ne list.map_comp comp_def set_map
        bex_simps set_rev bex_upt) simp

lemma searchFrom_None:
  "searchFrom re bef s = None \<longleftrightarrow>
     (\<forall>pre t. s = pre @ t \<longrightarrow> matches re \<lparr>seen = rev pre @ bef, rest = t, caps = []\<rparr> = [])"
proof (induction s arbitrary: bef)
  case Nil
  then show ?case by (auto split: list.splits)
next
  case (Cons x xs)
  show ?case
  proof (cases "matches re \<lparr>seen = bef, rest = x # xs, caps = []\<rparr>")
    case (Cons st sts)
    then have "searchFrom re bef (x # xs) \<noteq> None" by simp
    moreover have "\<not> (\<forall>pre t. x # xs = pre @ t \<longrightarrow>
        matches re \<lparr>seen = rev pre @ bef, rest = t, caps = []\<rparr> = [])"
      using Cons by (auto intro: exI [of _ "[]"])
    ultimately show ?thesis by blast
  next
    case Nil
    then have "searchFrom re bef (x # xs) = None \<longleftrightarrow> searchFrom re (x # bef) xs = None"
      by simp
    also have "\<dots> \<longleftrightarrow> (\<forall>pre t. xs = pre @ t \<longrightarrow>
        matches re \<lparr>seen = rev pre @ x # bef, rest = t, caps = []\<rparr> = [])"
      by (rule Cons.IH)
    also have "\<dots> \<longleftrightarrow> (\<forall>pre t. x # xs = pre @ t \<longrightarrow>
        matches re \<lparr>seen = rev pre @ bef, rest = t, caps = []\<rparr> = [])"
    proof (intro iffI allI impI)
      fix pre t
      assume h: "\<forall>pre t. xs = pre @ t \<longrightarrow>
        matches re \<lparr>seen = rev pre @ x # bef, rest = t, caps = []\<rparr> = []"
        and e: "x # xs = pre @ t"
      show "matches re \<lparr>seen = rev pre @ bef, rest = t, caps = []\<rparr> = []"
      proof (cases pre)
        case Nil
        with e \<open>matches re \<lparr>seen = bef, rest = x # xs, caps = []\<rparr> = []\<close> show ?thesis by simp
      next
        case (Cons p ps)
        with e have "xs = ps @ t" "p = x" by simp_all
        with h Cons show ?thesis by simp
      qed
    next
      fix pre t
      assume h: "\<forall>pre t. x # xs = pre @ t \<longrightarrow>
        matches re \<lparr>seen = rev pre @ bef, rest = t, caps = []\<rparr> = []"
        and e: "xs = pre @ t"
      from e have "x # xs = (x # pre) @ t" by simp
      with h have "matches re \<lparr>seen = rev (x # pre) @ bef, rest = t, caps = []\<rparr> = []" by blast
      then show "matches re \<lparr>seen = rev pre @ x # bef, rest = t, caps = []\<rparr> = []" by simp
    qed
    finally show ?thesis .
  qed
qed


lemma rest_advance: "rest (advance k st) = drop k (rest st)"
  by (simp add: advance_def)

lemma startsWith_iff: "startsWith s w \<longleftrightarrow> (\<exists>t. s = w @ t)"
proof
  assume "startsWith s w"
  then have "s = w @ drop (length w) s"
    by (metis append_take_drop_id startsWith_def)
  then show "\<exists>t. s = w @ t" ..
next
  assume "\<exists>t. s = w @ t"
  then show "startsWith s w" by (auto simp: startsWith_def)
qed

lemma step_str:
  assumes "\<And>st. matches r st \<noteq> [] \<longleftrightarrow> Q (rest st)"
  shows "matches (str w @ r) st \<noteq> [] \<longleftrightarrow> (\<exists>t. rest st = w @ t \<and> Q t)"
  by (auto simp: matches_str assms rest_advance startsWith_iff)

lemma step_One:
  assumes "\<And>st. matches r st \<noteq> [] \<longleftrightarrow> Q (rest st)"
  shows "matches (One c # r) st \<noteq> [] \<longleftrightarrow> (\<exists>x t. rest st = x # t \<and> inCls c x \<and> Q t)"
  by (auto simp: matches_ne_One assms rest_advance simp del: matches.simps)

lemma split_at:
  "(\<exists>k. i \<le> k \<and> k \<le> runLen c st \<and> Q (drop k (rest st))) \<longleftrightarrow>
   (\<exists>xs t. rest st = xs @ t \<and> i \<le> length xs \<and> list_all (inCls c) xs \<and> Q t)"
proof
  assume "\<exists>k. i \<le> k \<and> k \<le> runLen c st \<and> Q (drop k (rest st))"
  then obtain k where k: "i \<le> k" "k \<le> runLen c st" "Q (drop k (rest st))" by blast
  from k(2) obtain xs ys where x: "rest st = xs @ ys" "length xs = k" "list_all (inCls c) xs"
    by (auto simp: le_runLen_iff)
  with k show "\<exists>xs t. rest st = xs @ t \<and> i \<le> length xs \<and> list_all (inCls c) xs \<and> Q t"
    by auto
next
  assume "\<exists>xs t. rest st = xs @ t \<and> i \<le> length xs \<and> list_all (inCls c) xs \<and> Q t"
  then obtain xs t where x: "rest st = xs @ t" "i \<le> length xs" "list_all (inCls c) xs" "Q t"
    by blast
  then have "length xs \<le> runLen c st" by (auto simp: le_runLen_iff)
  with x show "\<exists>k. i \<le> k \<and> k \<le> runLen c st \<and> Q (drop k (rest st))"
    by (intro exI [of _ "length xs"]) simp
qed

lemma step_Plus:
  assumes "\<And>st. matches r st \<noteq> [] \<longleftrightarrow> Q (rest st)"
  shows "matches (Plus c # r) st \<noteq> [] \<longleftrightarrow>
           (\<exists>xs t. rest st = xs @ t \<and> 1 \<le> length xs \<and> list_all (inCls c) xs \<and> Q t)"
  unfolding matches_ne_Plus assms rest_advance by (rule split_at)

lemma step_Star:
  assumes "\<And>st. matches r st \<noteq> [] \<longleftrightarrow> Q (rest st)"
  shows "matches (Star c # r) st \<noteq> [] \<longleftrightarrow>
           (\<exists>xs t. rest st = xs @ t \<and> list_all (inCls c) xs \<and> Q t)"
  using split_at [of 0 c st Q] unfolding matches_ne_Star assms rest_advance by simp

lemma rest_caps: "rest (st\<lparr>caps := x\<rparr>) = rest st"
  by simp

lemma step_Grp_Plus:
  assumes "\<And>st. matches r st \<noteq> [] \<longleftrightarrow> Q (rest st)"
  shows "matches (Grp [Plus c] # r) st \<noteq> [] \<longleftrightarrow>
           (\<exists>xs t. rest st = xs @ t \<and> 1 \<le> length xs \<and> list_all (inCls c) xs \<and> Q t)"
  unfolding matches_ne_Grp_Plus assms rest_caps rest_advance by (rule split_at)

lemma step_Grp_StarLazy:
  assumes "\<And>st. matches r st \<noteq> [] \<longleftrightarrow> Q (rest st)"
  shows "matches (Grp [StarLazy c] # r) st \<noteq> [] \<longleftrightarrow>
           (\<exists>xs t. rest st = xs @ t \<and> list_all (inCls c) xs \<and> Q t)"
  using split_at [of 0 c st Q] unfolding matches_ne_Grp_StarLazy assms rest_caps rest_advance
  by simp

lemma functionMatchRe_at:
  "matches functionMatchRe st \<noteq> [] \<longleftrightarrow> headerAt (rest st)"
proof -
  let ?nl = "\<lambda>ch. \<not> isLineTerminator ch"
  let ?Q1 = "\<lambda>t. \<exists>post. t = '':'' @ post"
  let ?Q2 = "\<lambda>t. \<exists>post. t = ''):'' @ post"
  let ?Q3 = "\<lambda>t. \<exists>params post. t = params @ ''):'' @ post \<and> list_all ?nl params"
  let ?Q4 = "\<lambda>t. \<exists>params post. t = ''('' @ params @ ''):'' @ post \<and> list_all ?nl params"
  let ?Q5 = "\<lambda>t. \<exists>ws' params post. t = ws' @ ''('' @ params @ ''):'' @ post \<and>
                list_all isSpace ws' \<and> list_all ?nl params"
  let ?Q6 = "\<lambda>t. \<exists>name ws' params post. t = name @ ws' @ ''('' @ params @ ''):'' @ post \<and>
                name \<noteq> [] \<and> list_all isWordChar name \<and>
                list_all isSpace ws' \<and> list_all ?nl params"
  let ?Q7 = "\<lambda>t. \<exists>ws name ws' params post.
                t = ws @ name @ ws' @ ''('' @ params @ ''):'' @ post \<and>
                ws \<noteq> [] \<and> list_all isSpace ws \<and>
                name \<noteq> [] \<and> list_all isWordChar name \<and>
                list_all isSpace ws' \<and> list_all ?nl params"
  let ?r1 = "[One (Lit CHR '':'')]"
  let ?r2 = "One (Lit CHR '')'') # ?r1"
  let ?r3 = "Grp [StarLazy AnyChar] # ?r2"
  let ?r4 = "One (Lit CHR ''('') # ?r3"
  let ?r5 = "Star SpaceC # ?r4"
  let ?r6 = "Grp [Plus WordC] # ?r5"
  let ?r7 = "Plus SpaceC # ?r6"
  have ne: "1 \<le> length xs \<longleftrightarrow> xs \<noteq> []" for xs :: string
    by (cases xs) simp_all
  have 0: "matches [] st \<noteq> [] \<longleftrightarrow> True" for st by simp
  have 1: "matches ?r1 st \<noteq> [] \<longleftrightarrow> ?Q1 (rest st)" for st
    unfolding step_One [where Q = "\<lambda>t. True", OF 0] by auto
  have 2: "matches ?r2 st \<noteq> [] \<longleftrightarrow> ?Q2 (rest st)" for st
    unfolding step_One [where Q = ?Q1, OF 1] by auto
  have 3: "matches ?r3 st \<noteq> [] \<longleftrightarrow> ?Q3 (rest st)" for st
    unfolding step_Grp_StarLazy [where Q = ?Q2, OF 2] inCls_funs by blast
  have 4: "matches ?r4 st \<noteq> [] \<longleftrightarrow> ?Q4 (rest st)" for st
    unfolding step_One [where Q = ?Q3, OF 3] by auto
  have 5: "matches ?r5 st \<noteq> [] \<longleftrightarrow> ?Q5 (rest st)" for st
    unfolding step_Star [where Q = ?Q4, OF 4] inCls_funs by blast
  have 6: "matches ?r6 st \<noteq> [] \<longleftrightarrow> ?Q6 (rest st)" for st
    unfolding step_Grp_Plus [where Q = ?Q5, OF 5] inCls_funs ne by blast
  have 7: "matches ?r7 st \<noteq> [] \<longleftrightarrow> ?Q7 (rest st)" for st
    unfolding step_Plus [where Q = ?Q6, OF 6] inCls_funs ne by blast
  have re: "functionMatchRe = str ''def'' @ ?r7"
    by (simp add: functionMatchRe_def)
  show ?thesis
    unfolding re step_str [where Q = ?Q7, OF 7] headerAt_def by blast
qed

lemma regexMatch_functionMatchRe:
  "regexMatch functionMatchRe s = None \<longleftrightarrow> \<not> hasHeader s"
proof -
  have e: "matches functionMatchRe st = [] \<longleftrightarrow> \<not> headerAt (rest st)" for st
    using functionMatchRe_at [of st] by blast
  show ?thesis
    by (simp add: regexMatch_def searchFrom_None e hasHeader_def del: searchFrom.simps)
qed

section \<open>Properties of the transpiler\<close>

lemma generatedJS_missing: "regexMatch functionMatchRe code = None \<Longrightarrow> generatedJS code = None"
  by (simp add: generatedJS_def)

lemma evaluateUserCode_missing:
  "regexMatch functionMatchRe code = None \<Longrightarrow> evaluateUserCode hst code = Inl missingDefMessage"
  by (simp add: evaluateUserCode_def transpilePythonToJS_def generatedJS_missing
        missingDefMessage_def)

text \<open>
  C4, as the code has it. When the text holds no header
  \<open>def <name>(<params>):\<close>, line 750 throws; the two \<open>catch\<close> layers prefix the
  message; \<open>runTests\<close> and \<open>submitSolution\<close> return, show that one error and change
  nothing else of the scene: no callable is built, no test case is run, no list of
  results is shown, and the counter of failed attempts stays.
\<close>

theorem C4_missing_definition:
  assumes "\<not> hasHeader code"
  shows "transpilePythonToJS hst code =
           Inl ''Python transpilation error: Could not find Python function definition'' \<and>
         evaluateUserCode hst code = Inl missingDefMessage \<and>
         runTests hst code s = Some (s\<lparr>overlay := ErrorOverlay missingDefMessage\<rparr>) \<and>
         submitSolution hst code s = Some (s\<lparr>overlay := ErrorOverlay missingDefMessage\<rparr>)"
proof -
  from assms have "regexMatch functionMatchRe code = None"
    by (simp add: regexMatch_functionMatchRe)
  then show ?thesis
    by (simp add: evaluateUserCode_missing runTests_def submitSolution_def showError_def
          transpilePythonToJS_def generatedJS_missing)
qed

theorem C4_missing_definition_witness:
  "evaluateUserCode fixtureHost ''x = 1'' = Inl missingDefMessage \<and>
   runTests fixtureHost ''x = 1'' (create demoProblem staleScene) =
     Some ((create demoProblem staleScene)\<lparr>overlay := ErrorOverlay missingDefMessage\<rparr>) \<and>
   submitSolution fixtureHost ''x = 1'' (create demoProblem staleScene) =
     Some ((create demoProblem staleScene)\<lparr>overlay := ErrorOverlay missingDefMessage\<rparr>) \<and>
   hostState ((create demoProblem staleScene)\<lparr>overlay := ErrorOverlay missingDefMessage\<rparr>) =
     (0::nat) \<and>
   failedAttempts
     ((create demoProblem (staleScene :: nat scene))\<lparr>overlay := ErrorOverlay missingDefMessage\<rparr>) = 0"
proof -
  have "regexMatch functionMatchRe ''x = 1'' = None" by code_simp
  then have none: "\<not> hasHeader ''x = 1''"
    by (simp add: regexMatch_functionMatchRe)
  show ?thesis
    using C4_missing_definition [OF none, of fixtureHost "create demoProblem staleScene"]
    by (simp add: create_def staleScene_def)
qed

text \<open>
  C4 as stated names the message \<open>Could not find function definition\<close>; the message
  of the code is another, at both layers.
\<close>

theorem C4_counterexample:
  "\<not> hasHeader ''x = 1'' \<and>
   transpilePythonToJS fixtureHost ''x = 1'' \<noteq> Inl ''Could not find function definition'' \<and>
   evaluateUserCode fixtureHost ''x = 1'' \<noteq> Inl ''Could not find function definition''"
proof -
  have none: "regexMatch functionMatchRe ''x = 1'' = None" by code_simp
  then show ?thesis
    by (simp add: evaluateUserCode_def transpilePythonToJS_def generatedJS_missing
          regexMatch_functionMatchRe [symmetric])
qed

text \<open>
  C6. For the function with the nesting if, for, if the emitted body opens three blocks
  and closes them with three closing braces after the innermost statement, the deepest
  first (the closing lines are indented by 12, 8 and 4 spaces); the braces of the body
  are balanced; and the text handed to \<open>new Function\<close> is a function body of the host:
  it returns the function \<open>f(x)\<close> whose body is the \<open>if\<close> that holds the \<open>for\<close>
  that holds the \<open>if\<close> that holds \<open>return i\<close>, each block closed where the block
  of the source ends.
\<close>

theorem C6_nested_blocks:
  "generatedJS nestedSource = Some (jsCodeOf ''f'' ''x'' nestedBody) \<and>
   count_list nestedBody (CHR ''}'') = 3 \<and>
   count_list nestedBody (CHR ''{'') = 3 \<and>
   bracesBalanced nestedBody \<and>
   jsParse (jsCodeOf ''f'' ''x'' nestedBody) = Some nestedProgram"
proof -
  have h: "regexMatch functionMatchRe nestedSource =
      Some \<lparr>index = 0, whole = ''def f(x):'', groups = [''f'', ''x'']\<rparr>"
    by code_simp
  have b: "translateBody (tl (splitOn (CHR 0x0A) nestedSource)) = nestedBody"
    by code_simp
  have c: "count_list nestedBody (CHR ''}'') = 3" "count_list nestedBody (CHR ''{'') = 3"
    "bracesBalanced nestedBody"
    by code_simp+
  have p: "jsParse (jsCodeOf ''f'' ''x'' nestedBody) = Some nestedProgram"
    by code_simp
  from h b c p show ?thesis by (simp add: generatedJS_def)
qed

text \<open>
  C7 fails on the code. When the \<open>else:\<close> line is reached, the loop of lines 836-839
  has already closed the block of the \<open>if\<close> (the line is less indented than the
  top of the stack), so the \<open>}\<close> of \<open>} else {\<close> has no block of the body to
  close, and the block that \<open>else\<close> opens is never closed by the stack: the braces
  of the emitted body are not balanced.
\<close>

theorem C7_else_unbalanced:
  "generatedJS elseSource = Some (jsCodeOf ''f'' ''x'' elseBody) \<and>
   \<not> bracesBalanced elseBody \<and>
   braceDepth 0 elseBody = None"
proof -
  have h: "regexMatch functionMatchRe elseSource =
      Some \<lparr>index = 0, whole = ''def f(x):'', groups = [''f'', ''x'']\<rparr>"
    by code_simp
  have b: "translateBody (tl (splitOn (CHR 0x0A) elseSource)) = elseBody"
    by code_simp
  have c: "braceDepth 0 elseBody = None"
    by code_simp
  from h b c show ?thesis by (simp add: generatedJS_def bracesBalanced_def)
qed





end
